theory Spec2Isabelle
  imports Main "HOL-Library.Word" "HOL-Library.Sublist" "HOL-Library.AList"
begin

unbundle bit_operations_syntax

section \<open>The artifact publisher \<^verbatim>\<open>.github/scripts/upload_to_r2.py\<close>\<close>

text \<open>
  The script hashes a build artifact, uploads it to an S3-compatible bucket under a
  versioned and a latest key, and merges an entry into \<^verbatim>\<open>metadata/latest.json\<close>.
  The embedding keeps the script's functions and their names. The environment the script
  talks to (process environment, file system, clock, storage client) is a record of
  responses, and everything the script does to it is recorded as a list of events.
\<close>

subsection \<open>Python strings and \<^verbatim>\<open>pathlib\<close>\<close>

text \<open>
  \<^verbatim>\<open>str.lower\<close> on the ASCII letters. Characters outside \<open>A\<close>..\<open>Z\<close> are left as they
  are; no character outside ASCII is lowered by Python to a letter that occurs in the
  content-type table below, so the table lookup is not affected.
\<close>

definition lower_char :: "char \<Rightarrow> char" where
  "lower_char c =
     (case map_of (zip ''ABCDEFGHIJKLMNOPQRSTUVWXYZ'' ''abcdefghijklmnopqrstuvwxyz'') c of
        Some l \<Rightarrow> l
      | None \<Rightarrow> c)"

definition lower :: "string \<Rightarrow> string" where
  "lower s = map lower_char s"

text \<open>\<^verbatim>\<open>s.split(sep)\<close> for a one-character separator.\<close>

fun split_on :: "char \<Rightarrow> string \<Rightarrow> string list" where
  "split_on sep [] = [[]]"
| "split_on sep (c # cs) =
     (if c = sep then [] # split_on sep cs
      else (case split_on sep cs of [] \<Rightarrow> [[c]] | p # ps \<Rightarrow> (c # p) # ps))"

text \<open>\<^verbatim>\<open>sep.join(parts)\<close>.\<close>

fun join :: "string \<Rightarrow> string list \<Rightarrow> string" where
  "join sep [] = []"
| "join sep [p] = p"
| "join sep (p # q # ps) = p @ sep @ join sep (q # ps)"

text \<open>
  \<^verbatim>\<open>Path(p)\<close> in the POSIX flavour: the path is cut at \<open>/\<close>, empty components and
  \<open>.\<close> components are dropped. \<^verbatim>\<open>.name\<close> is the last component left (the empty
  string when there is none), \<^verbatim>\<open>str(Path(p))\<close> puts the components together again
  behind the root.
\<close>

definition path_parts :: "string \<Rightarrow> string list" where
  "path_parts p = filter (\<lambda>x. x \<noteq> [] \<and> x \<noteq> ''.'') (split_on CHR ''/'' p)"

definition path_root :: "string \<Rightarrow> string" where
  "path_root p =
     (let n = length (takeWhile (\<lambda>c. c = CHR ''/'') p)
      in if n = 0 then [] else if n = 2 then ''//'' else ''/'')"

definition path_str :: "string \<Rightarrow> string" where
  "path_str p = (let s = path_root p @ join ''/'' (path_parts p) in if s = [] then ''.'' else s)"

definition path_name :: "string \<Rightarrow> string" where
  "path_name p = (let parts = path_parts p in if parts = [] then [] else last parts)"

text \<open>\<^verbatim>\<open>s.rfind(c)\<close>: the highest index of \<open>c\<close> in \<open>s\<close>, or \<open>-1\<close>.\<close>

fun rfind :: "string \<Rightarrow> char \<Rightarrow> int" where
  "rfind [] c = -1"
| "rfind (x # xs) c =
     (let r = rfind xs c in if 0 \<le> r then r + 1 else if x = c then 0 else -1)"

text \<open>
  \<^verbatim>\<open>.suffix\<close> (Python 3.8 to 3.13): with \<open>i = name.rfind('.')\<close>, the suffix is
  \<open>name[i:]\<close> when \<open>0 < i < len(name) - 1\<close> and the empty string otherwise.
\<close>

definition name_suffix :: "string \<Rightarrow> string" where
  "name_suffix nm =
     (let i = rfind nm CHR ''.''
      in if 0 < i \<and> i < int (length nm) - 1 then drop (nat i) nm else [])"

definition path_suffix :: "string \<Rightarrow> string" where
  "path_suffix p = name_suffix (path_name p)"

subsection \<open>\<^verbatim>\<open>get_content_type\<close>\<close>

definition content_types :: "(string \<times> string) list" where
  "content_types =
     [(''.dmg'', ''application/x-apple-diskimage''),
      (''.exe'', ''application/x-msdownload''),
      (''.msi'', ''application/x-msi''),
      (''.zip'', ''application/zip''),
      (''.tar.gz'', ''application/gzip''),
      (''.json'', ''application/json'')]"

definition get_content_type :: "string \<Rightarrow> string" where
  "get_content_type filename =
     (let ext = lower (path_suffix filename)
      in case map_of content_types ext of
           Some t \<Rightarrow> t
         | None \<Rightarrow> ''application/octet-stream'')"

subsection \<open>Object keys\<close>

definition platform_arch_of :: "string \<Rightarrow> string \<Rightarrow> string" where
  "platform_arch_of platform arch = platform @ ''-'' @ arch"

definition versioned_key :: "string \<Rightarrow> string \<Rightarrow> string \<Rightarrow> string" where
  "versioned_key version platform_arch filename =
     ''releases/v'' @ version @ ''/'' @ platform_arch @ ''/'' @ filename"

definition latest_filename :: "string \<Rightarrow> string \<Rightarrow> string" where
  "latest_filename platform_arch ext = ''Ami-latest-'' @ platform_arch @ ext"

definition latest_key :: "string \<Rightarrow> string \<Rightarrow> string" where
  "latest_key platform_arch latest_fn = ''releases/latest/'' @ platform_arch @ ''/'' @ latest_fn"

subsection \<open>\<^verbatim>\<open>hashlib.sha256\<close>\<close>

text \<open>
  The hash object of the standard library, after FIPS 180-4: eight 32-bit chaining
  words, a buffer of the bytes that do not fill a 64-byte block yet, and the number of
  bytes absorbed. \<open>update\<close> compresses every full block as soon as it is there,
  \<open>hexdigest\<close> pads what is left in the buffer.
\<close>

type_synonym byte = "8 word"
type_synonym w32 = "32 word"

definition rotr :: "nat \<Rightarrow> w32 \<Rightarrow> w32" where
  "rotr n x = (drop_bit n x) OR (push_bit (32 - n) x)"

definition Ch :: "w32 \<Rightarrow> w32 \<Rightarrow> w32 \<Rightarrow> w32" where
  "Ch x y z = (x AND y) XOR (NOT x AND z)"

definition Maj :: "w32 \<Rightarrow> w32 \<Rightarrow> w32 \<Rightarrow> w32" where
  "Maj x y z = (x AND y) XOR (x AND z) XOR (y AND z)"

definition bsig0 :: "w32 \<Rightarrow> w32" where
  "bsig0 x = rotr 2 x XOR rotr 13 x XOR rotr 22 x"

definition bsig1 :: "w32 \<Rightarrow> w32" where
  "bsig1 x = rotr 6 x XOR rotr 11 x XOR rotr 25 x"

definition ssig0 :: "w32 \<Rightarrow> w32" where
  "ssig0 x = rotr 7 x XOR rotr 18 x XOR drop_bit 3 x"

definition ssig1 :: "w32 \<Rightarrow> w32" where
  "ssig1 x = rotr 17 x XOR rotr 19 x XOR drop_bit 10 x"

definition K256 :: "w32 list" where
  "K256 = [
    0x428A2F98, 0x71374491, 0xB5C0FBCF, 0xE9B5DBA5, 0x3956C25B, 0x59F111F1, 0x923F82A4, 0xAB1C5ED5,
    0xD807AA98, 0x12835B01, 0x243185BE, 0x550C7DC3, 0x72BE5D74, 0x80DEB1FE, 0x9BDC06A7, 0xC19BF174,
    0xE49B69C1, 0xEFBE4786, 0x0FC19DC6, 0x240CA1CC, 0x2DE92C6F, 0x4A7484AA, 0x5CB0A9DC, 0x76F988DA,
    0x983E5152, 0xA831C66D, 0xB00327C8, 0xBF597FC7, 0xC6E00BF3, 0xD5A79147, 0x06CA6351, 0x14292967,
    0x27B70A85, 0x2E1B2138, 0x4D2C6DFC, 0x53380D13, 0x650A7354, 0x766A0ABB, 0x81C2C92E, 0x92722C85,
    0xA2BFE8A1, 0xA81A664B, 0xC24B8B70, 0xC76C51A3, 0xD192E819, 0xD6990624, 0xF40E3585, 0x106AA070,
    0x19A4C116, 0x1E376C08, 0x2748774C, 0x34B0BCB5, 0x391C0CB3, 0x4ED8AA4A, 0x5B9CCA4F, 0x682E6FF3,
    0x748F82EE, 0x78A5636F, 0x84C87814, 0x8CC70208, 0x90BEFFFA, 0xA4506CEB, 0xBEF9A3F7, 0xC67178F2]"

definition H256 :: "w32 list" where
  "H256 = [0x6A09E667, 0xBB67AE85, 0x3C6EF372, 0xA54FF53A,
           0x510E527F, 0x9B05688C, 0x1F83D9AB, 0x5BE0CD19]"

definition be_word :: "byte list \<Rightarrow> w32" where
  "be_word bs = foldl (\<lambda>a b. push_bit 8 a OR ucast b) 0 bs"

fun words_of :: "byte list \<Rightarrow> w32 list" where
  "words_of (a # b # c # d # rest) = be_word [a, b, c, d] # words_of rest"
| "words_of _ = []"

text \<open>
  The message schedule is kept as a window of sixteen words, \<open>W\<^sub>t\<close> to \<open>W\<^sub>t\<^sub>+\<^sub>1\<^sub>5\<close>;
  \<open>next_word\<close> is \<open>W\<^sub>t\<^sub>+\<^sub>1\<^sub>6\<close>.
\<close>

definition next_word :: "w32 list \<Rightarrow> w32" where
  "next_word ws = ssig1 (ws ! 14) + ws ! 9 + ssig0 (ws ! 1) + ws ! 0"

fun round256 :: "w32 \<Rightarrow> w32 \<Rightarrow> w32 list \<Rightarrow> w32 list" where
  "round256 k w [a, b, c, d, e, f, g, h] =
     (let t1 = h + bsig1 e + Ch e f g + k + w;
          t2 = bsig0 a + Maj a b c
      in [t1 + t2, a, b, c, d + t1, e, f, g])"
| "round256 _ _ v = v"

fun rounds :: "w32 list \<Rightarrow> w32 list \<Rightarrow> w32 list \<Rightarrow> w32 list" where
  "rounds [] ws v = v"
| "rounds (k # ks) ws v = rounds ks (tl ws @ [next_word ws]) (round256 k (hd ws) v)"

definition compress :: "w32 list \<Rightarrow> byte list \<Rightarrow> w32 list" where
  "compress hv block = map2 (+) hv (rounds K256 (words_of block) hv)"

function absorb :: "w32 list \<Rightarrow> byte list \<Rightarrow> w32 list \<times> byte list" where
  "absorb hv bs = (if length bs < 64 then (hv, bs)
                   else absorb (compress hv (take 64 bs)) (drop 64 bs))"
  by pat_completeness auto
termination
  by (relation "measure (\<lambda>(hv, bs). length bs)") auto

definition be64 :: "nat \<Rightarrow> byte list" where
  "be64 n = (let w = (of_nat n :: 64 word)
             in map (\<lambda>i. ucast (drop_bit i w)) [56, 48, 40, 32, 24, 16, 8, 0])"

text \<open>The padding of a message of \<open>n\<close> bytes: \<open>0x80\<close>, zeros, the length in bits.\<close>

definition padding :: "nat \<Rightarrow> byte list" where
  "padding n = 0x80 # replicate ((119 - n mod 64) mod 64) 0 @ be64 (8 * n)"

definition hex_digit :: "nat \<Rightarrow> char" where
  "hex_digit n = ''0123456789abcdef'' ! (n mod 16)"

definition hex_byte :: "byte \<Rightarrow> string" where
  "hex_byte b = [hex_digit (unat b div 16), hex_digit (unat b mod 16)]"

definition word_bytes :: "w32 \<Rightarrow> byte list" where
  "word_bytes w = [ucast (drop_bit 24 w), ucast (drop_bit 16 w), ucast (drop_bit 8 w), ucast w]"

definition hex_of_words :: "w32 list \<Rightarrow> string" where
  "hex_of_words ws = concat (map hex_byte (concat (map word_bytes ws)))"

record sha256_obj =
  chain :: "w32 list"
  buffer :: "byte list"
  count :: nat

definition sha256_new :: sha256_obj where
  "sha256_new = \<lparr>chain = H256, buffer = [], count = 0\<rparr>"

definition sha256_update :: "sha256_obj \<Rightarrow> byte list \<Rightarrow> sha256_obj" where
  "sha256_update st data =
     (let r = absorb (chain st) (buffer st @ data)
      in \<lparr>chain = fst r, buffer = snd r, count = count st + length data\<rparr>)"

definition sha256_hexdigest :: "sha256_obj \<Rightarrow> string" where
  "sha256_hexdigest st =
     hex_of_words (fst (absorb (chain st) (buffer st @ padding (count st))))"

text \<open>
  SHA-256 of a whole message at once: the padded message is cut into 64-byte blocks and
  the compression function is folded over them from the initial chaining value.
\<close>

function blocks64 :: "byte list \<Rightarrow> byte list list" where
  "blocks64 bs = (if length bs < 64 then [] else take 64 bs # blocks64 (drop 64 bs))"
  by pat_completeness auto
termination
  by (relation "measure length") auto

definition sha256_whole :: "byte list \<Rightarrow> string" where
  "sha256_whole m =
     hex_of_words (fold (\<lambda>block hv. compress hv block) (blocks64 (m @ padding (length m))) H256)"

subsection \<open>Exceptions, the file system and \<^verbatim>\<open>calculate_sha256\<close>\<close>

datatype exn = KeyError string | TypeError | OSError | ValueError | ClientError

text \<open>
  A path that exists is a regular file with its bytes, or something that \<open>stat\<close>
  accepts and \<open>open(..., "rb")\<close> refuses (a directory, a file without read permission),
  with the size \<open>stat\<close> reports.
\<close>

datatype fs_entry = Regular "byte list" | Unreadable nat

fun st_size :: "fs_entry \<Rightarrow> nat" where
  "st_size (Regular bs) = length bs"
| "st_size (Unreadable n) = n"

text \<open>
  The loop \<^verbatim>\<open>for byte_block in iter(lambda: f.read(4096), b"")\<close>: \<open>rest\<close> is what the file
  still holds behind the read position; the loop ends at the first empty block.
\<close>

function read_blocks :: "sha256_obj \<Rightarrow> byte list \<Rightarrow> sha256_obj" where
  "read_blocks sha256_hash rest =
     (if take 4096 rest = [] then sha256_hash
      else read_blocks (sha256_update sha256_hash (take 4096 rest)) (drop 4096 rest))"
  by pat_completeness auto
termination
  by (relation "measure (\<lambda>(h, rest). length rest)") auto

definition calculate_sha256 :: "(string \<Rightarrow> fs_entry option) \<Rightarrow> string \<Rightarrow> exn + string" where
  "calculate_sha256 fs file_path =
     (case fs file_path of
        Some (Regular bs) \<Rightarrow> Inr (sha256_hexdigest (read_blocks sha256_new bs))
      | _ \<Rightarrow> Inl OSError)"

subsection \<open>\<^verbatim>\<open>datetime.utcnow().isoformat() + 'Z'\<close>\<close>

record datetime =
  year :: nat
  month :: nat
  day :: nat
  hour :: nat
  minute :: nat
  second :: nat
  microsecond :: nat

definition digit :: "nat \<Rightarrow> char" where
  "digit n = ''0123456789'' ! (n mod 10)"

fun dec :: "nat \<Rightarrow> string" where
  "dec n = (if n < 10 then [digit n] else dec (n div 10) @ [digit (n mod 10)])"

text \<open>The format \<^verbatim>\<open>%0wd\<close>: decimal, filled with zeros to at least \<open>w\<close> digits.\<close>

definition zdec :: "nat \<Rightarrow> nat \<Rightarrow> string" where
  "zdec w n = replicate (w - length (dec n)) CHR ''0'' @ dec n"

text \<open>
  \<open>isoformat\<close> of a naive datetime: the fraction of a second is printed, with six
  digits, exactly when the microsecond field is not zero.
\<close>

definition isoformat :: "datetime \<Rightarrow> string" where
  "isoformat dt =
     zdec 4 (year dt) @ ''-'' @ zdec 2 (month dt) @ ''-'' @ zdec 2 (day dt) @ ''T'' @
     zdec 2 (hour dt) @ '':'' @ zdec 2 (minute dt) @ '':'' @ zdec 2 (second dt) @
     (if microsecond dt \<noteq> 0 then ''.'' @ zdec 6 (microsecond dt) else [])"

definition utc_stamp :: "datetime \<Rightarrow> string" where
  "utc_stamp dt = isoformat dt @ ''Z''"

subsection \<open>JSON values and Python's item access\<close>

text \<open>
  What \<^verbatim>\<open>json.loads\<close> returns. An object is a Python dict: an association list in
  insertion order; \<open>d[k] = v\<close> replaces the value of a key that is there and appends
  a new key at the end.
\<close>

datatype json =
    JNull
  | JBool bool
  | JInt int
  | JFloat "64 word"
  | JStr string
  | JArr "json list"
  | JObj "(string \<times> json) list"

text \<open>\<open>obj[key]\<close> and \<open>obj[key] = v\<close> for a string key.\<close>

fun get_item :: "json \<Rightarrow> string \<Rightarrow> exn + json" where
  "get_item (JObj kvs) k = (case map_of kvs k of Some v \<Rightarrow> Inr v | None \<Rightarrow> Inl (KeyError k))"
| "get_item _ k = Inl TypeError"

fun set_item :: "json \<Rightarrow> string \<Rightarrow> json \<Rightarrow> exn + json" where
  "set_item (JObj kvs) k v = Inr (JObj (AList.update k v kvs))"
| "set_item _ k v = Inl TypeError"

subsection \<open>The environment and the events of a run\<close>

text \<open>
  What the try block around \<^verbatim>\<open>get_object\<close>, \<^verbatim>\<open>read\<close>, \<^verbatim>\<open>decode\<close> and \<^verbatim>\<open>json.loads\<close>
  ends with: the client's \<open>NoSuchKey\<close>, any other exception (a failed request or read,
  bytes that are not UTF-8, text that is not JSON), or the value parsed.
\<close>

datatype fetched = NoSuchKey | ReadError | Loaded json

record world =
  environ :: "string \<Rightarrow> string option"
  files :: "string \<Rightarrow> fs_entry option"
  utcnow :: "nat \<Rightarrow> datetime"
  client_ok :: bool
  upload_file_ok :: "string \<Rightarrow> bool"
  get_object_result :: fetched
  put_object_ok :: bool

text \<open>
  \<open>utcnow w i\<close> is the clock's answer to the \<open>i\<close>-th reading of the run, \<open>client_ok\<close>
  says whether \<^verbatim>\<open>boto3.client\<close> returns a client, \<open>upload_file_ok w key\<close> whether
  \<^verbatim>\<open>upload_file\<close> to \<open>key\<close> returns, \<open>put_object_ok\<close> whether \<^verbatim>\<open>put_object\<close> does.

  A message is named after the \<^verbatim>\<open>print\<close> statement that writes it and carries the values
  the statement interpolates; the wording of the text is left out, and \<^verbatim>\<open>print\<close> itself
  is taken to succeed.
\<close>

datatype msg =
    MissingCredentials
  | RequiredVariables
  | FileNotFound string
  | Uploading string
  | SizeLine nat
  | Sha256Line string
  | UploadingToBucket string
  | VersionedLine string
  | UploadedVersioned
  | LatestLine string
  | UploadedLatest
  | WarnReadMetadata
  | UpdatingMetadata
  | MetadataUpdated
  | WarnUpdateMetadata
  | DownloadUrls
  | VersionedUrl string string string
  | LatestUrl string string string
  | ConfigureHint
  | ErrorUploading exn
  | Traceback exn
  | UsageError

datatype event =
    Print msg
  | NewClient string string string
  | UploadFile string string string string "(string \<times> string) list"
  | GetObject string string
  | PutObject string string json string

text \<open>
  \<open>NewClient endpoint access_key secret_key\<close>, \<open>UploadFile filename bucket key
  content_type metadata\<close>, \<open>GetObject bucket key\<close>, \<open>PutObject bucket key document
  content_type\<close>. The body of \<open>PutObject\<close> is the document itself:
  \<^verbatim>\<open>json.dumps(metadata, indent=2).encode('utf-8')\<close> is defined on every value that
  \<^verbatim>\<open>json.loads\<close> returns and on the strings, integers and booleans the script adds.
\<close>

fun is_call :: "event \<Rightarrow> bool" where
  "is_call (Print m) = False"
| "is_call _ = True"

definition client_calls :: "event list \<Rightarrow> event list" where
  "client_calls evs = filter is_call evs"

fun is_manifest_call :: "event \<Rightarrow> bool" where
  "is_manifest_call (GetObject b k) = True"
| "is_manifest_call (PutObject b k d c) = True"
| "is_manifest_call _ = False"

fun put_documents :: "event list \<Rightarrow> json list" where
  "put_documents [] = []"
| "put_documents (PutObject b k d c # evs) = d # put_documents evs"
| "put_documents (e # evs) = put_documents evs"

text \<open>How an f-string shows the result of \<^verbatim>\<open>os.environ.get\<close>.\<close>

fun fstr :: "string option \<Rightarrow> string" where
  "fstr None = ''None''"
| "fstr (Some s) = s"

fun truthy :: "string option \<Rightarrow> bool" where
  "truthy None = False"
| "truthy (Some s) = (s \<noteq> [])"

definition bool_str :: "bool \<Rightarrow> string" where
  "bool_str b = lower (if b then ''True'' else ''False'')"

subsection \<open>\<^verbatim>\<open>update_metadata_json\<close>\<close>

definition metadata_key :: string where
  "metadata_key = ''metadata/latest.json''"

definition fresh_shell :: "string \<Rightarrow> string \<Rightarrow> json" where
  "fresh_shell version stamp =
     JObj [(''version'', JStr version), (''release_date'', JStr stamp), (''downloads'', JObj [])]"

text \<open>
  Lines 189 to 206: the metadata to start from, the number of clock readings after it,
  and the events.
\<close>

definition load_metadata ::
  "world \<Rightarrow> nat \<Rightarrow> string \<Rightarrow> string \<Rightarrow> json \<times> nat \<times> event list" where
  "load_metadata w clk bucket version =
     (case get_object_result w of
        Loaded j \<Rightarrow> (j, clk, [GetObject bucket metadata_key])
      | NoSuchKey \<Rightarrow>
          (fresh_shell version (utc_stamp (utcnow w clk)), Suc clk,
           [GetObject bucket metadata_key])
      | ReadError \<Rightarrow>
          (fresh_shell version (utc_stamp (utcnow w clk)), Suc clk,
           [GetObject bucket metadata_key, Print WarnReadMetadata]))"

definition download_info ::
  "string option \<Rightarrow> string \<Rightarrow> string \<Rightarrow> string \<Rightarrow> nat \<Rightarrow> string \<Rightarrow> bool \<Rightarrow> bool \<Rightarrow> json" where
  "download_info endpoint bucket platform_arch latest_k file_size file_hash is_signed notarized =
     JObj ([(''url'', JStr (fstr endpoint @ ''/'' @ bucket @ ''/'' @ latest_k)),
            (''size'', JInt (int file_size)),
            (''sha256'', JStr file_hash),
            (''signed'', JBool is_signed)] @
           (if sublist ''macos'' platform_arch then [(''notarized'', JBool notarized)] else []))"

text \<open>Lines 208 to 224: the three assignments into the metadata.\<close>

definition merge_metadata :: "json \<Rightarrow> string \<Rightarrow> string \<Rightarrow> string \<Rightarrow> json \<Rightarrow> exn + json" where
  "merge_metadata metadata version stamp platform_arch info =
     (case set_item metadata ''version'' (JStr version) of
        Inl e \<Rightarrow> Inl e
      | Inr m1 \<Rightarrow>
     (case set_item m1 ''release_date'' (JStr stamp) of
        Inl e \<Rightarrow> Inl e
      | Inr m2 \<Rightarrow>
     (case get_item m2 ''downloads'' of
        Inl e \<Rightarrow> Inl e
      | Inr d \<Rightarrow>
     (case set_item d platform_arch info of
        Inl e \<Rightarrow> Inl e
      | Inr d' \<Rightarrow> set_item m2 ''downloads'' d'))))"

definition update_metadata_json ::
  "world \<Rightarrow> nat \<Rightarrow> string \<Rightarrow> string \<Rightarrow> string \<Rightarrow> string \<Rightarrow> nat \<Rightarrow> string \<Rightarrow> bool \<Rightarrow> bool
     \<Rightarrow> (exn + unit) \<times> event list" where
  "update_metadata_json w clk bucket version platform_arch latest_k file_size file_hash
       is_signed notarized =
     (case load_metadata w clk bucket version of (metadata, clk', evs) \<Rightarrow>
       (case merge_metadata metadata version (utc_stamp (utcnow w clk')) platform_arch
               (download_info (environ w ''R2_ENDPOINT'') bucket platform_arch latest_k
                  file_size file_hash is_signed notarized) of
          Inl e \<Rightarrow> (Inl e, evs)
        | Inr doc \<Rightarrow>
            (Inr (),
             evs @ [Print UpdatingMetadata, PutObject bucket metadata_key doc ''application/json'']
                 @ [Print (if put_object_ok w then MetadataUpdated else WarnUpdateMetadata)])))"

subsection \<open>\<^verbatim>\<open>upload_to_r2\<close> and \<^verbatim>\<open>main\<close>\<close>

definition object_metadata ::
  "string \<Rightarrow> string \<Rightarrow> string \<Rightarrow> string \<Rightarrow> string \<Rightarrow> bool \<Rightarrow> bool \<Rightarrow> string option
     \<Rightarrow> (string \<times> string) list" where
  "object_metadata version platform arch build_date file_hash is_signed notarized commit_sha =
     [(''version'', version), (''platform'', platform), (''arch'', arch),
      (''build-date'', build_date), (''sha256'', file_hash), (''signed'', bool_str is_signed)] @
     (if platform = ''macos'' then [(''notarized'', bool_str notarized)] else []) @
     (if truthy commit_sha then [(''commit-sha'', fstr commit_sha)] else [])"

text \<open>
  Lines 130 to 172, the body of the \<^verbatim>\<open>try\<close>: the exception that leaves it, if any, and
  the events up to there.
\<close>

definition try_upload ::
  "world \<Rightarrow> string \<Rightarrow> string \<Rightarrow> string \<Rightarrow> string \<Rightarrow> string \<Rightarrow> nat \<Rightarrow> string \<Rightarrow> bool \<Rightarrow> bool
     \<Rightarrow> string \<Rightarrow> (string \<times> string) list \<Rightarrow> string \<Rightarrow> string \<Rightarrow> (exn + unit) \<times> event list" where
  "try_upload w filename endpoint bucket version platform_arch file_size file_hash is_signed
       notarized content_type metadata versioned_k latest_k =
     (let evs1 = [Print (UploadingToBucket bucket), Print (VersionedLine versioned_k),
                  UploadFile filename bucket versioned_k content_type metadata]
      in if \<not> upload_file_ok w versioned_k then (Inl ClientError, evs1)
         else
           let evs2 = evs1 @ [Print UploadedVersioned, Print (LatestLine latest_k),
                              UploadFile filename bucket latest_k content_type metadata]
           in if \<not> upload_file_ok w latest_k then (Inl ClientError, evs2)
              else
                (case update_metadata_json w 1 bucket version platform_arch latest_k
                        file_size file_hash is_signed notarized of
                   (Inl e, evs3) \<Rightarrow> (Inl e, evs2 @ [Print UploadedLatest] @ evs3)
                 | (Inr u, evs3) \<Rightarrow>
                     (Inr (),
                      evs2 @ [Print UploadedLatest] @ evs3 @
                      [Print DownloadUrls, Print (VersionedUrl endpoint bucket versioned_k),
                       Print (LatestUrl endpoint bucket latest_k), Print ConfigureHint])))"

text \<open>
  The result is the value returned, or the exception that leaves the function: the
  ones raised before the \<^verbatim>\<open>try\<close> are not caught.
\<close>

definition upload_to_r2 ::
  "world \<Rightarrow> string \<Rightarrow> string \<Rightarrow> string \<Rightarrow> string \<Rightarrow> bool \<Rightarrow> bool \<Rightarrow> string option
     \<Rightarrow> (exn + bool) \<times> event list" where
  "upload_to_r2 w file_path version platform arch is_signed notarized commit_sha =
     (let access_key = environ w ''R2_ACCESS_KEY_ID'';
          secret_key = environ w ''R2_SECRET_ACCESS_KEY'';
          endpoint = environ w ''R2_ENDPOINT'';
          bucket = environ w ''R2_BUCKET''
      in if \<not> list_all truthy [access_key, secret_key, endpoint, bucket]
         then (Inr False, [Print MissingCredentials, Print RequiredVariables])
         else
           (case files w file_path of
              None \<Rightarrow> (Inr False, [Print (FileNotFound file_path)])
            | Some entry \<Rightarrow>
                (case calculate_sha256 (files w) file_path of
                   Inl e \<Rightarrow> (Inl e, [])
                 | Inr file_hash \<Rightarrow>
                     let file_size = st_size entry;
                         filename = path_name file_path;
                         evs0 = [Print (Uploading filename), Print (SizeLine file_size),
                                 Print (Sha256Line file_hash)]
                     in if \<not> client_ok w then (Inl ValueError, evs0)
                        else
                          let evs1 = evs0 @ [NewClient (fstr endpoint) (fstr access_key)
                                               (fstr secret_key)];
                              platform_arch = platform_arch_of platform arch;
                              metadata = object_metadata version platform arch
                                           (utc_stamp (utcnow w 0)) file_hash is_signed notarized
                                           commit_sha;
                              content_type = get_content_type filename;
                              versioned_k = versioned_key version platform_arch filename;
                              latest_fn = latest_filename platform_arch (path_suffix file_path);
                              latest_k = latest_key platform_arch latest_fn
                          in (case try_upload w (path_str file_path) (fstr endpoint)
                                     (fstr bucket) version platform_arch file_size file_hash
                                     is_signed notarized content_type metadata versioned_k latest_k of
                                (Inl e, evs) \<Rightarrow>
                                  (Inr False, evs1 @ evs @ [Print (ErrorUploading e),
                                                           Print (Traceback e)])
                              | (Inr u, evs) \<Rightarrow> (Inr True, evs1 @ evs)))))"

record args =
  arg_file :: string
  arg_version :: string
  arg_platform :: string
  arg_arch :: string
  arg_signed :: bool
  arg_notarized :: bool
  arg_commit_sha :: "string option"

definition platform_choices :: "string list" where
  "platform_choices = [''macos'', ''windows'']"

definition arch_choices :: "string list" where
  "arch_choices = [''arm64'', ''x64'']"

text \<open>
  \<open>main\<close> on the parsed arguments: \<open>argparse\<close> leaves with status 2 when a value is
  not among the choices, an exception that nobody catches ends the process with its
  traceback and status 1.
\<close>

definition main :: "world \<Rightarrow> args \<Rightarrow> nat \<times> event list" where
  "main w a =
     (if arg_platform a \<in> set platform_choices \<and> arg_arch a \<in> set arch_choices
      then
        (case upload_to_r2 w (arg_file a) (arg_version a) (arg_platform a) (arg_arch a)
                (arg_signed a) (arg_notarized a) (arg_commit_sha a) of
           (Inr success, evs) \<Rightarrow> (if success then 0 else 1, evs)
         | (Inl e, evs) \<Rightarrow> (1, evs @ [Print (Traceback e)]))
      else (2, [Print UsageError]))"

fun upload_keys :: "event list \<Rightarrow> string list" where
  "upload_keys [] = []"
| "upload_keys (UploadFile f b k c m # evs) = k # upload_keys evs"
| "upload_keys (e # evs) = upload_keys evs"

fun build_dates :: "event list \<Rightarrow> string option list" where
  "build_dates [] = []"
| "build_dates (UploadFile f b k c m # evs) = map_of m ''build-date'' # build_dates evs"
| "build_dates (e # evs) = build_dates evs"

subsection \<open>Notions used in the statements\<close>

text \<open>
  A hash object \<open>holds\<close> a message when it is in the state that absorbing the message
  from the initial state leads to.
\<close>

definition holds :: "sha256_obj \<Rightarrow> byte list \<Rightarrow> bool" where
  "holds st m \<longleftrightarrow> absorb H256 m = (chain st, buffer st) \<and> count st = length m"

text \<open>The ranges of the fields of a Python \<open>datetime\<close>.\<close>

definition valid_datetime :: "datetime \<Rightarrow> bool" where
  "valid_datetime dt \<longleftrightarrow>
     1 \<le> year dt \<and> year dt \<le> 9999 \<and> 1 \<le> month dt \<and> month dt \<le> 12 \<and>
     1 \<le> day dt \<and> day dt \<le> 31 \<and> hour dt < 24 \<and> minute dt < 60 \<and> second dt < 60 \<and>
     microsecond dt < 1000000"

definition digits2 :: "nat \<Rightarrow> string" where
  "digits2 n = [digit (n div 10), digit n]"

definition digits4 :: "nat \<Rightarrow> string" where
  "digits4 n = [digit (n div 1000), digit (n div 100), digit (n div 10), digit n]"

definition digits6 :: "nat \<Rightarrow> string" where
  "digits6 n = [digit (n div 100000), digit (n div 10000), digit (n div 1000),
                digit (n div 100), digit (n div 10), digit n]"

text \<open>
  A run reaches the uploads when the four variables are set and not empty, the path is
  a regular file and the client is constructed.
\<close>

definition reaches_upload :: "world \<Rightarrow> string \<Rightarrow> bool" where
  "reaches_upload w file_path \<longleftrightarrow>
     list_all truthy [environ w ''R2_ACCESS_KEY_ID'', environ w ''R2_SECRET_ACCESS_KEY'',
                      environ w ''R2_ENDPOINT'', environ w ''R2_BUCKET''] \<and>
     (case files w file_path of Some (Regular bs) \<Rightarrow> True | _ \<Rightarrow> False) \<and>
     client_ok w"

text \<open>The calls of a run without their payload.\<close>

datatype call = Construct | Upload string | Get string | Put string

fun calls :: "event list \<Rightarrow> call list" where
  "calls [] = []"
| "calls (Print m # evs) = calls evs"
| "calls (NewClient e a s # evs) = Construct # calls evs"
| "calls (UploadFile f b k c m # evs) = Upload k # calls evs"
| "calls (GetObject b k # evs) = Get k # calls evs"
| "calls (PutObject b k d c # evs) = Put k # calls evs"

text \<open>
  What reading the manifest gives is usable when the three assignments of lines 208
  to 224 go through: the fallback shell, or a JSON object whose \<open>downloads\<close> is an
  object.
\<close>

definition usable :: "fetched \<Rightarrow> bool" where
  "usable got =
     (case got of
        Loaded (JObj m) \<Rightarrow> (case map_of m ''downloads'' of Some (JObj d) \<Rightarrow> True | _ \<Rightarrow> False)
      | Loaded _ \<Rightarrow> False
      | _ \<Rightarrow> True)"

subsection \<open>Example runs\<close>

definition demo_environ :: "string \<Rightarrow> string option" where
  "demo_environ =
     map_of [(''R2_ACCESS_KEY_ID'', ''id''), (''R2_SECRET_ACCESS_KEY'', ''secret''),
             (''R2_ENDPOINT'', ''https://r2.example''), (''R2_BUCKET'', ''ami'')]"

definition demo_file :: string where
  "demo_file = ''dist/Ami-1.1.0-macos-arm64.dmg''"

definition demo_now :: datetime where
  "demo_now = \<lparr>year = 2024, month = 1, day = 15, hour = 10, minute = 30, second = 45,
                microsecond = 123456\<rparr>"

text \<open>
  A run in which everything is there and every call succeeds; \<open>got\<close> is what reading
  the manifest gives.
\<close>

definition demo_world :: "fetched \<Rightarrow> world" where
  "demo_world got =
     \<lparr>environ = demo_environ, files = map_of [(demo_file, Regular [])],
      utcnow = (\<lambda>i. demo_now), client_ok = True, upload_file_ok = (\<lambda>k. True),
      get_object_result = got, put_object_ok = True\<rparr>"

definition demo_args :: args where
  "demo_args =
     \<lparr>arg_file = demo_file, arg_version = ''1.1.0'', arg_platform = ''macos'',
      arg_arch = ''arm64'', arg_signed = False, arg_notarized = True, arg_commit_sha = None\<rparr>"

definition prior_manifest :: json where
  "prior_manifest =
     JObj [(''version'', JStr ''1.0.0''), (''release_date'', JStr ''t0''),
           (''downloads'',
            JObj [(''windows-x64'',
                   JObj [(''url'', JStr ''u1''), (''size'', JInt 10), (''sha256'', JStr ''h1''),
                         (''signed'', JBool True)])])]"

text \<open>
  Two manifests that are JSON and not of the manifest's shape: the empty object, and
  an object whose entry for \<open>windows-x64\<close> is a string.
\<close>

definition empty_manifest :: json where
  "empty_manifest = JObj []"

definition garbage_manifest :: json where
  "garbage_manifest = JObj [(''downloads'', JObj [(''windows-x64'', JStr ''garbage'')])]"

section \<open>Properties\<close>

declare absorb.simps [simp del]
declare blocks64.simps [simp del]
declare read_blocks.simps [simp del]
declare dec.simps [simp del]

subsection \<open>Paths and suffixes\<close>

lemma lower_char_dot: "lower_char c = CHR ''.'' \<longleftrightarrow> c = CHR ''.''"
  by (auto simp: lower_char_def split: option.splits if_splits)

lemma split_on_not_Nil: "split_on c s \<noteq> []"
  by (induction s) (auto split: list.splits)

lemma split_on_append:
  "c \<notin> set ys \<Longrightarrow> split_on c (xs @ ys) = butlast (split_on c xs) @ [last (split_on c xs) @ ys]"
proof (induction xs)
  case Nil
  then show ?case by (induction ys) (auto split: list.splits)
next
  case (Cons x xs)
  then show ?case
    using split_on_not_Nil [of c xs] split_on_not_Nil [of c "xs @ ys"]
    by (cases "split_on c xs") (auto split: list.splits)
qed

lemma path_name_append:
  assumes "CHR ''/'' \<notin> set ys" and "2 \<le> length ys"
  shows "path_name (xs @ ys) = last (split_on CHR ''/'' xs) @ ys"
proof -
  have "last (split_on CHR ''/'' xs) @ ys \<noteq> []" "last (split_on CHR ''/'' xs) @ ys \<noteq> ''.''"
    using assms(2) by (auto simp: append_eq_Cons_conv)
  then show ?thesis
    using assms(1) by (simp add: path_name_def path_parts_def split_on_append Let_def)
qed

lemma rfind_ge: "- 1 \<le> rfind s c"
  by (induction s) (auto simp: Let_def)

lemma rfind_neg: "\<not> 0 \<le> rfind s c \<Longrightarrow> rfind s c = - 1"
  using rfind_ge [of s c] by simp

lemma rfind_append:
  "rfind (xs @ ys) c = (if 0 \<le> rfind ys c then int (length xs) + rfind ys c else rfind xs c)"
proof (induction xs)
  case Nil
  show ?case using rfind_ge [of ys c] by simp
next
  case (Cons x xs)
  then show ?case using rfind_ge [of xs c] by (simp add: Let_def)
qed

lemma rfind_absent: "rfind s c < 0 \<longleftrightarrow> c \<notin> set s"
  by (induction s) (auto simp: Let_def)

lemma rfind_drop: "0 \<le> rfind s c \<Longrightarrow> \<exists>r. drop (nat (rfind s c)) s = c # r \<and> c \<notin> set r"
proof (induction s)
  case Nil
  then show ?case by simp
next
  case (Cons x xs)
  show ?case
  proof (cases "0 \<le> rfind xs c")
    case True
    then have "nat (rfind xs c + 1) = Suc (nat (rfind xs c))" by simp
    with True Cons.IH show ?thesis by (simp add: Let_def)
  next
    case False
    with Cons.prems have "x = c" by (simp add: Let_def split: if_splits)
    moreover from False have "c \<notin> set xs" using rfind_absent [of xs c] by simp
    ultimately show ?thesis using False by (simp add: Let_def)
  qed
qed

lemma name_suffix_shape:
  "name_suffix nm = [] \<or> (\<exists>r. name_suffix nm = CHR ''.'' # r \<and> CHR ''.'' \<notin> set r)"
proof (cases "0 < rfind nm CHR ''.'' \<and> rfind nm CHR ''.'' < int (length nm) - 1")
  case True
  then have "0 \<le> rfind nm CHR ''.''" by simp
  from rfind_drop [OF this] obtain r
    where "drop (nat (rfind nm CHR ''.'')) nm = CHR ''.'' # r" and "CHR ''.'' \<notin> set r"
    by blast
  with True show ?thesis by (simp add: name_suffix_def Let_def)
next
  case False
  show ?thesis by (simp only: name_suffix_def Let_def False if_False simp_thms)
qed

lemma lower_keeps_dots: "CHR ''.'' \<notin> set r \<Longrightarrow> CHR ''.'' \<notin> set (lower r)"
proof
  assume a: "CHR ''.'' \<notin> set r" and "CHR ''.'' \<in> set (lower r)"
  then obtain x where x: "x \<in> set r" "lower_char x = CHR ''.''"
    by (auto simp: lower_def)
  then have "x = CHR ''.''" by (simp add: lower_char_dot)
  with x a show False by simp
qed

lemma lower_dot: "lower (CHR ''.'' # r) = CHR ''.'' # lower r"
  by (simp add: lower_def lower_char_def)

lemma lower_suffix_shape:
  "lower (name_suffix nm) = [] \<or>
   (\<exists>r. lower (name_suffix nm) = CHR ''.'' # r \<and> CHR ''.'' \<notin> set r)"
proof -
  consider "name_suffix nm = []"
    | r where "name_suffix nm = CHR ''.'' # r" "CHR ''.'' \<notin> set r"
    using name_suffix_shape [of nm] by blast
  then show ?thesis
  proof cases
    case 1
    then show ?thesis by (simp add: lower_def)
  next
    case 2
    then show ?thesis using lower_keeps_dots [of r] by (simp add: lower_dot)
  qed
qed

lemma lower_suffix_not_tar_gz: "lower (path_suffix p) \<noteq> ''.tar.gz''"
proof
  assume a: "lower (path_suffix p) = ''.tar.gz''"
  from lower_suffix_shape [of "path_name p"] a
  obtain r where "''.tar.gz'' = CHR ''.'' # r" "CHR ''.'' \<notin> set r"
    by (auto simp: path_suffix_def)
  then show False by auto
qed

lemma path_suffix_tar_gz: "path_suffix (p @ ''.tar.gz'') = ''.gz''"
proof -
  have "path_name (p @ ''.tar.gz'') = last (split_on CHR ''/'' p) @ ''.tar.gz''"
    by (rule path_name_append) simp_all
  moreover have "nat (int n + 4) - n = 4" for n :: nat
    by simp
  ultimately show ?thesis
    by (simp add: path_suffix_def name_suffix_def rfind_append Let_def)
qed

lemma get_content_type_cases:
  "get_content_type f =
     (let ext = lower (path_suffix f)
      in if ext = ''.dmg'' then ''application/x-apple-diskimage''
         else if ext = ''.exe'' then ''application/x-msdownload''
         else if ext = ''.msi'' then ''application/x-msi''
         else if ext = ''.zip'' then ''application/zip''
         else if ext = ''.json'' then ''application/json''
         else ''application/octet-stream'')"
  using lower_suffix_not_tar_gz [of f]
  by (simp add: get_content_type_def content_types_def Let_def)

subsection \<open>Content types\<close>

text \<open>
  C8. The content type depends on the file name only through its lowered suffix, by the
  fixed table: \<open>.dmg\<close>, \<open>.exe\<close>, \<open>.msi\<close>, \<open>.zip\<close> and \<open>.json\<close> have their type, every
  other suffix gets \<open>application/octet-stream\<close>. The bytes of the file are not an
  argument of the function. The four examples of the specification are instances.
\<close>

theorem content_type_by_extension:
  "(\<forall>f. get_content_type f =
     (let ext = lower (path_suffix f)
      in if ext = ''.dmg'' then ''application/x-apple-diskimage''
         else if ext = ''.exe'' then ''application/x-msdownload''
         else if ext = ''.msi'' then ''application/x-msi''
         else if ext = ''.zip'' then ''application/zip''
         else if ext = ''.json'' then ''application/json''
         else ''application/octet-stream'')) \<and>
   get_content_type ''Ami-1.0.0-macos-arm64.dmg'' = ''application/x-apple-diskimage'' \<and>
   get_content_type ''Ami-Setup-1.0.0.exe'' = ''application/x-msdownload'' \<and>
   get_content_type ''Ami-1.0.0-windows-x64.zip'' = ''application/zip'' \<and>
   get_content_type ''notes.xyz'' = ''application/octet-stream''"
proof -
  have "get_content_type ''Ami-1.0.0-macos-arm64.dmg'' = ''application/x-apple-diskimage''"
    by (simp add: get_content_type_def path_suffix_def path_name_def path_parts_def
        name_suffix_def lower_def lower_char_def content_types_def)
  moreover have "get_content_type ''Ami-Setup-1.0.0.exe'' = ''application/x-msdownload''"
    by (simp add: get_content_type_def path_suffix_def path_name_def path_parts_def
        name_suffix_def lower_def lower_char_def content_types_def)
  moreover have "get_content_type ''Ami-1.0.0-windows-x64.zip'' = ''application/zip''"
    by (simp add: get_content_type_def path_suffix_def path_name_def path_parts_def
        name_suffix_def lower_def lower_char_def content_types_def)
  moreover have "get_content_type ''notes.xyz'' = ''application/octet-stream''"
    by (simp add: get_content_type_def path_suffix_def path_name_def path_parts_def
        name_suffix_def lower_def lower_char_def content_types_def)
  ultimately show ?thesis
    using get_content_type_cases by blast
qed

text \<open>
  C10. The lookup sees the last dot-suffix only, lowered: a file name that ends in
  \<open>.tar.gz\<close> has the suffix \<open>.gz\<close> and gets \<open>application/octet-stream\<close>; the lowered
  suffix of a path is never \<open>.tar.gz\<close>, and no file name gets \<open>application/gzip\<close>.
\<close>

theorem tar_gz_entry_unreachable:
  "path_suffix (p @ ''.tar.gz'') = ''.gz'' \<and>
   get_content_type (p @ ''.tar.gz'') = ''application/octet-stream'' \<and>
   lower (path_suffix f) \<noteq> ''.tar.gz'' \<and>
   get_content_type f \<noteq> ''application/gzip''"
proof -
  have "lower ''.gz'' = ''.gz''"
    by (simp add: lower_def lower_char_def)
  then have "get_content_type (p @ ''.tar.gz'') = ''application/octet-stream''"
    by (simp add: get_content_type_def path_suffix_tar_gz content_types_def)
  moreover have "get_content_type f \<noteq> ''application/gzip''"
    by (simp add: get_content_type_cases Let_def)
  ultimately show ?thesis
    by (simp add: path_suffix_tar_gz lower_suffix_not_tar_gz)
qed

subsection \<open>The hash object\<close>

lemma absorb_append:
  "absorb hv (a @ b) = absorb (fst (absorb hv a)) (snd (absorb hv a) @ b)"
proof (induction hv a rule: absorb.induct)
  case (1 hv bs)
  show ?case
  proof (cases "length bs < 64")
    case True
    then show ?thesis by (simp add: absorb.simps [of hv bs])
  next
    case False
    then have "absorb hv (bs @ b) = absorb (compress hv (take 64 bs)) (drop 64 bs @ b)"
      by (simp add: absorb.simps [of hv "bs @ b"])
    also have "\<dots> = absorb (fst (absorb (compress hv (take 64 bs)) (drop 64 bs)))
                         (snd (absorb (compress hv (take 64 bs)) (drop 64 bs)) @ b)"
      using False by (rule "1.IH")
    also have "absorb (compress hv (take 64 bs)) (drop 64 bs) = absorb hv bs"
      using False by (simp add: absorb.simps [of hv bs])
    finally show ?thesis .
  qed
qed

lemma absorb_blocks:
  "fst (absorb hv bs) = fold (\<lambda>block hv. compress hv block) (blocks64 bs) hv"
proof (induction hv bs rule: absorb.induct)
  case (1 hv bs)
  show ?case
  proof (cases "length bs < 64")
    case True
    then show ?thesis by (simp add: absorb.simps [of hv bs] blocks64.simps [of bs])
  next
    case False
    with "1.IH" show ?thesis
      by (simp add: absorb.simps [of hv bs] blocks64.simps [of bs])
  qed
qed

lemma holds_new: "holds sha256_new []"
  by (simp add: holds_def sha256_new_def absorb.simps [of H256 "[]"])

lemma holds_update: "holds st m \<Longrightarrow> holds (sha256_update st d) (m @ d)"
  by (simp add: holds_def sha256_update_def Let_def absorb_append [of H256 m d])

lemma holds_read_blocks: "holds st m \<Longrightarrow> holds (read_blocks st rest) (m @ rest)"
proof (induction st rest arbitrary: m rule: read_blocks.induct)
  case (1 st rest)
  show ?case
  proof (cases "take 4096 rest = []")
    case True
    then have "rest = []" by (cases rest) simp_all
    with "1.prems" show ?thesis by (simp add: read_blocks.simps [of st "[]"])
  next
    case False
    have "holds (read_blocks (sha256_update st (take 4096 rest)) (drop 4096 rest))
            ((m @ take 4096 rest) @ drop 4096 rest)"
      using False "1.prems" by (intro "1.IH" holds_update)
    with False show ?thesis by (simp add: read_blocks.simps [of st rest])
  qed
qed

lemma holds_hexdigest:
  assumes "holds st m"
  shows "sha256_hexdigest st = sha256_whole m"
proof -
  have "absorb (chain st) (buffer st @ padding (count st)) = absorb H256 (m @ padding (length m))"
    using assms by (simp add: holds_def absorb_append [of H256 m "padding (length m)"])
  then have "fst (absorb (chain st) (buffer st @ padding (count st))) =
               fold (\<lambda>block hv. compress hv block) (blocks64 (m @ padding (length m))) H256"
    by (simp only: absorb_blocks)
  then show ?thesis
    by (simp only: sha256_hexdigest_def sha256_whole_def)
qed

lemma holds_fold: "holds st m \<Longrightarrow> holds (fold (\<lambda>c s. sha256_update s c) chunks st) (m @ concat chunks)"
proof (induction chunks arbitrary: st m)
  case Nil
  then show ?case by simp
next
  case (Cons c chunks)
  from Cons.IH [OF holds_update [OF Cons.prems, of c]] show ?case by simp
qed

lemma calculate_sha256_whole:
  "calculate_sha256 fs p = (case fs p of Some (Regular bs) \<Rightarrow> Inr (sha256_whole bs) | _ \<Rightarrow> Inl OSError)"
  using holds_hexdigest [OF holds_read_blocks [OF holds_new]]
  by (simp add: calculate_sha256_def split: option.splits fs_entry.splits)

text \<open>
  The test vector of the standard for the message \<open>abc\<close>, computed from the
  definitions above.
\<close>

lemma replicate_num: "replicate (numeral k) x = x # replicate (pred_numeral k) x"
  by (simp add: numeral_eq_Suc)

lemma abc_padding:
  "padding 3 = 0x80 # replicate 52 0 @ [0, 0, 0, 0, 0, 0, 0, 0x18]"
  by (simp add: padding_def be64_def)

lemma abc_words:
  "words_of ([0x61, 0x62, 0x63] @ padding 3) =
     [0x61626380, 0, 0, 0, 0, 0, 0, 0, 0, 0, 0, 0, 0, 0, 0, 0x18]"
  by (simp add: abc_padding replicate_num be_word_def)

lemma w32_norm:
  "4294967296 \<le> (numeral k :: nat) \<Longrightarrow>
   (numeral k :: 32 word) = of_nat (numeral k mod 4294967296)"
proof -
  have "(of_nat (numeral k mod 4294967296) :: 32 word) = of_nat (take_bit 32 (numeral k))"
    by (simp add: take_bit_eq_mod)
  also have "\<dots> = of_nat (numeral k)"
    by (simp only: of_nat_take_bit take_bit_length_eq [where 'a = 32, simplified])
  finally show ?thesis by simp
qed

lemma abc_compress:
  "compress H256 ([0x61, 0x62, 0x63] @ padding 3) =
     [0xBA7816BF, 0x8F01CFEA, 0x414140DE, 0x5DAE2223, 0xB00361A3, 0x96177A9C, 0xB410FF61, 0xF20015AD]"
  unfolding compress_def abc_words
  by (simp add: w32_norm K256_def H256_def next_word_def ssig0_def ssig1_def bsig0_def
      bsig1_def Ch_def Maj_def rotr_def)

lemma abc_blocks: "blocks64 ([0x61, 0x62, 0x63] @ padding 3) = [[0x61, 0x62, 0x63] @ padding 3]"
  by (simp add: abc_padding replicate_num blocks64.simps)

lemma sha256_abc:
  "sha256_whole [0x61, 0x62, 0x63] =
     ''ba7816bf8f01cfea414140de5dae2223b00361a396177a9cb410ff61f20015ad''"
proof -
  have len: "length [0x61, 0x62, 0x63 :: byte] = 3"
    by simp
  have "sha256_whole [0x61, 0x62, 0x63] =
          hex_of_words (compress H256 ([0x61, 0x62, 0x63] @ padding 3))"
    by (simp only: sha256_whole_def len abc_blocks fold_simps id_apply o_apply)
  also have "\<dots> = ''ba7816bf8f01cfea414140de5dae2223b00361a396177a9cb410ff61f20015ad''"
    by (simp only: abc_compress)
       (simp add: hex_of_words_def word_bytes_def hex_byte_def hex_digit_def)
  finally show ?thesis .
qed

subsection \<open>The manifest update\<close>

lemma macos_in_platform_arch:
  "platform \<in> set platform_choices \<Longrightarrow> arch \<in> set arch_choices \<Longrightarrow>
   sublist ''macos'' (platform_arch_of platform arch) \<longleftrightarrow> platform = ''macos''"
  by (auto simp: platform_choices_def arch_choices_def platform_arch_of_def sublist_code)

lemma merge_metadata_obj:
  "map_of m ''downloads'' = Some (JObj d) \<Longrightarrow>
   merge_metadata (JObj m) version stamp pa info =
     Inr (JObj (AList.update ''downloads'' (JObj (AList.update pa info d))
                 (AList.update ''release_date'' (JStr stamp)
                   (AList.update ''version'' (JStr version) m))))"
  by (simp add: merge_metadata_def update_conv')

lemma merge_fresh_shell:
  "merge_metadata (fresh_shell version stamp0) version stamp pa info =
     Inr (JObj [(''version'', JStr version), (''release_date'', JStr stamp),
                (''downloads'', JObj [(pa, info)])])"
  by (simp add: merge_metadata_def fresh_shell_def)

lemma update_loaded:
  assumes "get_object_result w = Loaded (JObj m)" and "map_of m ''downloads'' = Some (JObj d)"
  shows "update_metadata_json w clk bucket version pa lk sz fh sg nt =
     (Inr (),
      [GetObject bucket metadata_key, Print UpdatingMetadata,
       PutObject bucket metadata_key
         (JObj (AList.update ''downloads''
                 (JObj (AList.update pa
                         (download_info (environ w ''R2_ENDPOINT'') bucket pa lk sz fh sg nt) d))
                 (AList.update ''release_date'' (JStr (utc_stamp (utcnow w clk)))
                   (AList.update ''version'' (JStr version) m))))
         ''application/json'',
       Print (if put_object_ok w then MetadataUpdated else WarnUpdateMetadata)])"
  using assms by (simp add: update_metadata_json_def load_metadata_def merge_metadata_obj)

lemma update_fallback:
  assumes "get_object_result w = NoSuchKey \<or> get_object_result w = ReadError"
  shows "update_metadata_json w clk bucket version pa lk sz fh sg nt =
     (Inr (),
      [GetObject bucket metadata_key] @
      (if get_object_result w = ReadError then [Print WarnReadMetadata] else []) @
      [Print UpdatingMetadata,
       PutObject bucket metadata_key
         (JObj [(''version'', JStr version),
                (''release_date'', JStr (utc_stamp (utcnow w (Suc clk)))),
                (''downloads'',
                 JObj [(pa, download_info (environ w ''R2_ENDPOINT'') bucket pa lk sz fh sg nt)])])
         ''application/json'',
       Print (if put_object_ok w then MetadataUpdated else WarnUpdateMetadata)])"
  using assms by (auto simp: update_metadata_json_def load_metadata_def merge_fresh_shell)

subsection \<open>The calls of a run\<close>

lemma calculate_sha256_regular:
  "fs p = Some (Regular bs) \<Longrightarrow> calculate_sha256 fs p = Inr (sha256_whole bs)"
  by (simp add: calculate_sha256_whole)

lemma calls_append: "calls (xs @ ys) = calls xs @ calls ys"
  by (induction xs rule: calls.induct) simp_all

lemma calls_update_metadata_json:
  "calls (snd (update_metadata_json w clk bucket version pa lk sz fh sg nt)) =
     Get metadata_key #
     (case fst (update_metadata_json w clk bucket version pa lk sz fh sg nt) of
        Inl e \<Rightarrow> [] | Inr u \<Rightarrow> [Put metadata_key])"
  by (simp add: update_metadata_json_def load_metadata_def calls_append
      split: fetched.splits sum.splits prod.splits)

lemma fst_try_upload:
  "fst (try_upload w fn ep bucket version pa sz fh sg nt ct md vk lk) =
     (if upload_file_ok w vk \<and> upload_file_ok w lk
      then fst (update_metadata_json w 1 bucket version pa lk sz fh sg nt)
      else Inl ClientError)"
  by (simp add: try_upload_def Let_def split: prod.splits sum.splits)

lemma calls_try_upload:
  "calls (snd (try_upload w fn ep bucket version pa sz fh sg nt ct md vk lk)) =
     (if \<not> upload_file_ok w vk then [Upload vk]
      else if \<not> upload_file_ok w lk then [Upload vk, Upload lk]
      else Upload vk # Upload lk #
           calls (snd (update_metadata_json w 1 bucket version pa lk sz fh sg nt)))"
  by (simp add: try_upload_def Let_def calls_append split: prod.splits sum.splits)

lemma upload_to_r2_reached:
  assumes "reaches_upload w fp" and "files w fp = Some (Regular bs)"
  shows "upload_to_r2 w fp version platform arch sg nt commit =
     (let pre = [Print (Uploading (path_name fp)), Print (SizeLine (length bs)),
                 Print (Sha256Line (sha256_whole bs)),
                 NewClient (fstr (environ w ''R2_ENDPOINT'')) (fstr (environ w ''R2_ACCESS_KEY_ID''))
                   (fstr (environ w ''R2_SECRET_ACCESS_KEY''))];
          pa = platform_arch_of platform arch
      in case try_upload w (path_str fp) (fstr (environ w ''R2_ENDPOINT''))
                (fstr (environ w ''R2_BUCKET'')) version pa (length bs) (sha256_whole bs) sg nt
                (get_content_type (path_name fp))
                (object_metadata version platform arch (utc_stamp (utcnow w 0))
                   (sha256_whole bs) sg nt commit)
                (versioned_key version pa (path_name fp))
                (latest_key pa (latest_filename pa (path_suffix fp))) of
           (Inl e, evs) \<Rightarrow> (Inr False, pre @ evs @ [Print (ErrorUploading e), Print (Traceback e)])
         | (Inr u, evs) \<Rightarrow> (Inr True, pre @ evs))"
  using assms
  by (simp add: upload_to_r2_def reaches_upload_def calculate_sha256_regular Let_def
      split: prod.splits sum.splits)

lemma upload_to_r2_not_reached:
  assumes "\<not> reaches_upload w fp"
  shows "calls (snd (upload_to_r2 w fp version platform arch sg nt commit)) = [] \<and>
         fst (upload_to_r2 w fp version platform arch sg nt commit) \<noteq> Inr True"
proof (cases "list_all truthy [environ w ''R2_ACCESS_KEY_ID'', environ w ''R2_SECRET_ACCESS_KEY'',
                      environ w ''R2_ENDPOINT'', environ w ''R2_BUCKET'']")
  case False
  then show ?thesis by (simp add: upload_to_r2_def)
next
  case True
  show ?thesis
  proof (cases "files w fp")
    case None
    with True show ?thesis by (simp add: upload_to_r2_def)
  next
    case (Some entry)
    show ?thesis
    proof (cases entry)
      case (Regular bs)
      with Some True assms have "\<not> client_ok w" by (simp add: reaches_upload_def)
      with Some Regular True show ?thesis
        by (simp add: upload_to_r2_def calculate_sha256_regular Let_def)
    next
      case (Unreadable n)
      with Some True show ?thesis
        by (simp add: upload_to_r2_def calculate_sha256_def)
    qed
  qed
qed

lemma upload_to_r2_validation:
  assumes "\<not> list_all truthy [environ w ''R2_ACCESS_KEY_ID'', environ w ''R2_SECRET_ACCESS_KEY'',
                      environ w ''R2_ENDPOINT'', environ w ''R2_BUCKET''] \<or> files w fp = None"
  shows "upload_to_r2 w fp version platform arch sg nt commit =
     (Inr False,
      if list_all truthy [environ w ''R2_ACCESS_KEY_ID'', environ w ''R2_SECRET_ACCESS_KEY'',
                      environ w ''R2_ENDPOINT'', environ w ''R2_BUCKET'']
      then [Print (FileNotFound fp)]
      else [Print MissingCredentials, Print RequiredVariables])"
  using assms by (auto simp: upload_to_r2_def)

lemma merge_metadata_ok:
  "(\<exists>doc. merge_metadata j version stamp pa info = Inr doc) \<longleftrightarrow> usable (Loaded j)"
proof (cases j)
  case (JObj m)
  have "map_of (AList.update ''release_date'' (JStr stamp)
                 (AList.update ''version'' (JStr version) m)) ''downloads'' =
        map_of m ''downloads''"
    by (simp add: update_conv')
  then show ?thesis
    using JObj
    by (cases "map_of m ''downloads''"; cases "the (map_of m ''downloads'')")
       (simp_all add: merge_metadata_def usable_def)
qed (simp_all add: merge_metadata_def usable_def)

lemma usable_shell: "usable (Loaded (fresh_shell version stamp))"
  by (simp add: usable_def fresh_shell_def)

lemma fst_update_metadata_json:
  "fst (update_metadata_json w clk bucket version pa lk sz fh sg nt) = Inr () \<longleftrightarrow>
     usable (get_object_result w)"
proof (cases "get_object_result w")
  case NoSuchKey
  then show ?thesis
    by (simp add: update_fallback usable_def)
next
  case ReadError
  then show ?thesis
    by (simp add: update_fallback usable_def)
next
  case (Loaded j)
  then show ?thesis
    using merge_metadata_ok [of j version "utc_stamp (utcnow w clk)" pa
        "download_info (environ w ''R2_ENDPOINT'') bucket pa lk sz fh sg nt"]
    by (auto simp: update_metadata_json_def load_metadata_def split: sum.splits)
qed

lemma calls_update_usable:
  "calls (snd (update_metadata_json w clk bucket version pa lk sz fh sg nt)) =
     (if usable (get_object_result w) then [Get metadata_key, Put metadata_key]
      else [Get metadata_key])"
  using fst_update_metadata_json [of w clk bucket version pa lk sz fh sg nt]
  by (cases "fst (update_metadata_json w clk bucket version pa lk sz fh sg nt)")
     (simp_all add: calls_update_metadata_json)

lemma calls_upload_to_r2_reached:
  assumes "reaches_upload w fp" and "files w fp = Some (Regular bs)"
  shows "calls (snd (upload_to_r2 w fp version platform arch sg nt commit)) =
     (let pa = platform_arch_of platform arch
      in Construct #
         calls (snd (try_upload w (path_str fp) (fstr (environ w ''R2_ENDPOINT''))
                (fstr (environ w ''R2_BUCKET'')) version pa (length bs) (sha256_whole bs) sg nt
                (get_content_type (path_name fp))
                (object_metadata version platform arch (utc_stamp (utcnow w 0))
                   (sha256_whole bs) sg nt commit)
                (versioned_key version pa (path_name fp))
                (latest_key pa (latest_filename pa (path_suffix fp))))))"
proof -
  let ?pa = "platform_arch_of platform arch"
  let ?t = "try_upload w (path_str fp) (fstr (environ w ''R2_ENDPOINT''))
                (fstr (environ w ''R2_BUCKET'')) version ?pa (length bs) (sha256_whole bs) sg nt
                (get_content_type (path_name fp))
                (object_metadata version platform arch (utc_stamp (utcnow w 0))
                   (sha256_whole bs) sg nt commit)
                (versioned_key version ?pa (path_name fp))
                (latest_key ?pa (latest_filename ?pa (path_suffix fp)))"
  obtain r evs where t: "?t = (r, evs)" by (cases ?t)
  show ?thesis
    by (cases r) (simp_all add: upload_to_r2_reached [OF assms] Let_def t calls_append)
qed

lemma calls_upload_to_r2:
  "calls (snd (upload_to_r2 w fp version platform arch sg nt commit)) =
     (let pa = platform_arch_of platform arch;
          vk = versioned_key version pa (path_name fp);
          lk = latest_key pa (latest_filename pa (path_suffix fp))
      in if \<not> reaches_upload w fp then []
         else if \<not> upload_file_ok w vk then [Construct, Upload vk]
         else if \<not> upload_file_ok w lk then [Construct, Upload vk, Upload lk]
         else if \<not> usable (get_object_result w)
           then [Construct, Upload vk, Upload lk, Get metadata_key]
         else [Construct, Upload vk, Upload lk, Get metadata_key, Put metadata_key])"
proof (cases "reaches_upload w fp")
  case False
  then show ?thesis by (simp add: upload_to_r2_not_reached Let_def)
next
  case True
  then obtain bs where bs: "files w fp = Some (Regular bs)"
    by (auto simp: reaches_upload_def split: option.splits fs_entry.splits)
  show ?thesis
    using True
    by (simp add: calls_upload_to_r2_reached [OF True bs] Let_def calls_try_upload
        calls_update_usable)
qed

lemma fst_upload_to_r2:
  "fst (upload_to_r2 w fp version platform arch sg nt commit) = Inr True \<longleftrightarrow>
     (let pa = platform_arch_of platform arch;
          vk = versioned_key version pa (path_name fp);
          lk = latest_key pa (latest_filename pa (path_suffix fp))
      in reaches_upload w fp \<and> upload_file_ok w vk \<and> upload_file_ok w lk \<and>
         usable (get_object_result w))"
proof (cases "reaches_upload w fp")
  case False
  then show ?thesis
    using upload_to_r2_not_reached [of w fp version platform arch sg nt commit]
    by (simp add: Let_def)
next
  case True
  then obtain bs where bs: "files w fp = Some (Regular bs)"
    by (auto simp: reaches_upload_def split: option.splits fs_entry.splits)
  let ?pa = "platform_arch_of platform arch"
  let ?t = "try_upload w (path_str fp) (fstr (environ w ''R2_ENDPOINT''))
                (fstr (environ w ''R2_BUCKET'')) version ?pa (length bs) (sha256_whole bs) sg nt
                (get_content_type (path_name fp))
                (object_metadata version platform arch (utc_stamp (utcnow w 0))
                   (sha256_whole bs) sg nt commit)
                (versioned_key version ?pa (path_name fp))
                (latest_key ?pa (latest_filename ?pa (path_suffix fp)))"
  have "fst (upload_to_r2 w fp version platform arch sg nt commit) = Inr True \<longleftrightarrow>
          fst ?t = Inr ()"
    by (cases ?t; cases "fst ?t") (simp_all add: upload_to_r2_reached [OF True bs] Let_def)
  then show ?thesis
    using True by (auto simp: fst_try_upload fst_update_metadata_json Let_def)
qed

lemma upload_to_r2_reached_returns:
  assumes "reaches_upload w fp"
  shows "\<exists>b. fst (upload_to_r2 w fp version platform arch sg nt commit) = Inr b"
proof -
  from assms obtain bs where bs: "files w fp = Some (Regular bs)"
    by (auto simp: reaches_upload_def split: option.splits fs_entry.splits)
  show ?thesis
    by (auto simp: upload_to_r2_reached [OF assms bs] Let_def split: prod.splits sum.splits)
qed

lemma demo_reaches: "reaches_upload (demo_world got) demo_file"
  by (simp add: reaches_upload_def demo_world_def demo_environ_def)

subsection \<open>The manifest\<close>

text \<open>
  C1. When the manifest read is a JSON object whose \<open>downloads\<close> is an object, and
  platform and architecture are among the choices of the command line, the update
  writes one document: the manifest read with \<open>version\<close> and \<open>release_date\<close> set to
  this run's values, every other top-level key as it was, and in \<open>downloads\<close> the
  entry \<open>{url, size, sha256, signed}\<close> under \<open>platform-arch\<close>, with \<open>notarized\<close>
  exactly when the platform is \<open>macos\<close>, and every other entry as it was. The example
  of the specification is the instance that follows the theorem.
\<close>

theorem manifest_merge:
  assumes "get_object_result w = Loaded (JObj m)"
    and "map_of m ''downloads'' = Some (JObj d)"
    and "platform \<in> set platform_choices" and "arch \<in> set arch_choices"
  shows
    "let pa = platform_arch_of platform arch;
         entry = JObj ([(''url'', JStr (fstr (environ w ''R2_ENDPOINT'') @ ''/'' @ bucket @ ''/'' @ lk)),
                        (''size'', JInt (int sz)), (''sha256'', JStr fh), (''signed'', JBool sg)] @
                       (if platform = ''macos'' then [(''notarized'', JBool nt)] else []));
         dl = AList.update pa entry d;
         doc = AList.update ''downloads'' (JObj dl)
                 (AList.update ''release_date'' (JStr (utc_stamp (utcnow w clk)))
                   (AList.update ''version'' (JStr version) m))
     in update_metadata_json w clk bucket version pa lk sz fh sg nt =
          (Inr (),
           [GetObject bucket metadata_key, Print UpdatingMetadata,
            PutObject bucket metadata_key (JObj doc) ''application/json'',
            Print (if put_object_ok w then MetadataUpdated else WarnUpdateMetadata)]) \<and>
        map_of doc ''version'' = Some (JStr version) \<and>
        map_of doc ''release_date'' = Some (JStr (utc_stamp (utcnow w clk))) \<and>
        map_of doc ''downloads'' = Some (JObj dl) \<and>
        (\<forall>k. k \<noteq> ''version'' \<and> k \<noteq> ''release_date'' \<and> k \<noteq> ''downloads''
               \<longrightarrow> map_of doc k = map_of m k) \<and>
        map_of dl pa = Some entry \<and>
        (\<forall>k. k \<noteq> pa \<longrightarrow> map_of dl k = map_of d k)"
proof -
  have "download_info (environ w ''R2_ENDPOINT'') bucket (platform_arch_of platform arch)
          lk sz fh sg nt =
        JObj ([(''url'', JStr (fstr (environ w ''R2_ENDPOINT'') @ ''/'' @ bucket @ ''/'' @ lk)),
               (''size'', JInt (int sz)), (''sha256'', JStr fh), (''signed'', JBool sg)] @
              (if platform = ''macos'' then [(''notarized'', JBool nt)] else []))"
    using assms(3,4) by (simp add: download_info_def macos_in_platform_arch)
  then show ?thesis
    using update_loaded [OF assms(1,2), of clk bucket version "platform_arch_of platform arch"
        lk sz fh sg nt]
    by (simp add: Let_def update_conv')
qed

theorem manifest_merge_witness:
  "update_metadata_json (demo_world (Loaded prior_manifest)) 1 ''ami'' ''1.1.0'' ''macos-arm64''
      ''releases/latest/macos-arm64/Ami-latest-macos-arm64.dmg'' 20 ''h2'' False True =
   (Inr (),
    [GetObject ''ami'' ''metadata/latest.json'', Print UpdatingMetadata,
     PutObject ''ami'' ''metadata/latest.json''
       (JObj [(''version'', JStr ''1.1.0''),
              (''release_date'', JStr ''2024-01-15T10:30:45.123456Z''),
              (''downloads'',
               JObj [(''windows-x64'',
                      JObj [(''url'', JStr ''u1''), (''size'', JInt 10), (''sha256'', JStr ''h1''),
                            (''signed'', JBool True)]),
                     (''macos-arm64'',
                      JObj [(''url'', JStr ''https://r2.example/ami/releases/latest/macos-arm64/Ami-latest-macos-arm64.dmg''),
                            (''size'', JInt 20), (''sha256'', JStr ''h2''),
                            (''signed'', JBool False), (''notarized'', JBool True)])])])
       ''application/json'',
     Print MetadataUpdated])"
  using manifest_merge [of "demo_world (Loaded prior_manifest)"
      "[(''version'', JStr ''1.0.0''), (''release_date'', JStr ''t0''),
        (''downloads'',
         JObj [(''windows-x64'',
                JObj [(''url'', JStr ''u1''), (''size'', JInt 10), (''sha256'', JStr ''h1''),
                      (''signed'', JBool True)])])]"
      "[(''windows-x64'',
         JObj [(''url'', JStr ''u1''), (''size'', JInt 10), (''sha256'', JStr ''h1''),
               (''signed'', JBool True)])]"
      "''macos''" "''arm64''" "''ami''"
      "''releases/latest/macos-arm64/Ami-latest-macos-arm64.dmg''" 20 "''h2''" False True 1 "''1.1.0''"]
  by (simp add: demo_world_def prior_manifest_def platform_choices_def arch_choices_def
      platform_arch_of_def demo_environ_def metadata_key_def Let_def
      demo_now_def utc_stamp_def isoformat_def zdec_def dec.simps digit_def)

text \<open>
  C2, as stated, fails: a manifest that is JSON but not of the manifest's shape is not
  replaced by a fresh shell. Here the entry for \<open>windows-x64\<close> is a string and the
  document has neither \<open>version\<close> nor \<open>release_date\<close>; the update keeps the string
  and writes it back.
\<close>

theorem malformed_manifest_counterexample:
  "update_metadata_json (demo_world (Loaded garbage_manifest)) 1 ''ami'' ''1.1.0''
      ''macos-arm64'' ''releases/latest/macos-arm64/Ami-latest-macos-arm64.dmg'' 20 ''h2''
      False True =
   (Inr (),
    [GetObject ''ami'' ''metadata/latest.json'', Print UpdatingMetadata,
     PutObject ''ami'' ''metadata/latest.json''
       (JObj [(''downloads'',
               JObj [(''windows-x64'', JStr ''garbage''),
                     (''macos-arm64'',
                      JObj [(''url'', JStr ''https://r2.example/ami/releases/latest/macos-arm64/Ami-latest-macos-arm64.dmg''),
                            (''size'', JInt 20), (''sha256'', JStr ''h2''),
                            (''signed'', JBool False), (''notarized'', JBool True)])]),
              (''version'', JStr ''1.1.0''),
              (''release_date'', JStr ''2024-01-15T10:30:45.123456Z'')])
       ''application/json'',
     Print MetadataUpdated])"
  by (simp add: update_metadata_json_def load_metadata_def merge_metadata_def download_info_def
      demo_world_def garbage_manifest_def demo_environ_def metadata_key_def sublist_code
      demo_now_def utc_stamp_def isoformat_def zdec_def dec.simps digit_def)

text \<open>
  C2, amended. When the manifest is absent, or fetching, reading, decoding or parsing it
  raises, the update starts from the fresh shell and writes exactly \<open>version\<close>,
  \<open>release_date\<close> and a \<open>downloads\<close> with this run's entry, and raises nothing; a failed
  read is logged as a warning. A body that is JSON is not checked against the shape of
  the manifest: an object whose \<open>downloads\<close> is an object is merged as it is.
\<close>

theorem manifest_fallback:
  "(get_object_result w = NoSuchKey \<or> get_object_result w = ReadError \<longrightarrow>
      update_metadata_json w clk bucket version pa lk sz fh sg nt =
        (Inr (),
         [GetObject bucket metadata_key] @
         (if get_object_result w = ReadError then [Print WarnReadMetadata] else []) @
         [Print UpdatingMetadata,
          PutObject bucket metadata_key
            (JObj [(''version'', JStr version),
                   (''release_date'', JStr (utc_stamp (utcnow w (Suc clk)))),
                   (''downloads'',
                    JObj [(pa, download_info (environ w ''R2_ENDPOINT'') bucket pa lk sz fh sg nt)])])
            ''application/json'',
          Print (if put_object_ok w then MetadataUpdated else WarnUpdateMetadata)])) \<and>
   (get_object_result w = Loaded (JObj m) \<and> map_of m ''downloads'' = Some (JObj d) \<longrightarrow>
      update_metadata_json w clk bucket version pa lk sz fh sg nt =
        (Inr (),
         [GetObject bucket metadata_key, Print UpdatingMetadata,
          PutObject bucket metadata_key
            (JObj (AList.update ''downloads''
                    (JObj (AList.update pa
                            (download_info (environ w ''R2_ENDPOINT'') bucket pa lk sz fh sg nt) d))
                    (AList.update ''release_date'' (JStr (utc_stamp (utcnow w clk)))
                      (AList.update ''version'' (JStr version) m))))
            ''application/json'',
          Print (if put_object_ok w then MetadataUpdated else WarnUpdateMetadata)]))"
  using update_fallback [of w clk bucket version pa lk sz fh sg nt]
    update_loaded [of w m d clk bucket version pa lk sz fh sg nt]
  by blast

theorem manifest_fallback_witness:
  "update_metadata_json (demo_world ReadError) 1 ''ami'' ''1.1.0'' ''macos-arm64''
      ''releases/latest/macos-arm64/Ami-latest-macos-arm64.dmg'' 20 ''h2'' False True =
   (Inr (),
    [GetObject ''ami'' ''metadata/latest.json'', Print WarnReadMetadata, Print UpdatingMetadata,
     PutObject ''ami'' ''metadata/latest.json''
       (JObj [(''version'', JStr ''1.1.0''),
              (''release_date'', JStr ''2024-01-15T10:30:45.123456Z''),
              (''downloads'',
               JObj [(''macos-arm64'',
                      JObj [(''url'', JStr ''https://r2.example/ami/releases/latest/macos-arm64/Ami-latest-macos-arm64.dmg''),
                            (''size'', JInt 20), (''sha256'', JStr ''h2''),
                            (''signed'', JBool False), (''notarized'', JBool True)])])])
       ''application/json'',
     Print MetadataUpdated]) \<and>
   put_documents (snd (update_metadata_json (demo_world (Loaded prior_manifest)) 1 ''ami''
      ''1.1.0'' ''windows-x64'' ''k'' 20 ''h2'' False True)) =
   [JObj [(''version'', JStr ''1.1.0''),
          (''release_date'', JStr ''2024-01-15T10:30:45.123456Z''),
          (''downloads'',
           JObj [(''windows-x64'',
                  JObj [(''url'', JStr ''https://r2.example/ami/k''), (''size'', JInt 20),
                        (''sha256'', JStr ''h2''), (''signed'', JBool False)])])]]"
  using manifest_fallback [of "demo_world ReadError" 1 "''ami''" "''1.1.0''" "''macos-arm64''"
      "''releases/latest/macos-arm64/Ami-latest-macos-arm64.dmg''" 20 "''h2''" False True]
    manifest_fallback [of "demo_world (Loaded prior_manifest)" 1 "''ami''" "''1.1.0''"
      "''windows-x64''" "''k''" 20 "''h2''" False True
      "[(''version'', JStr ''1.0.0''), (''release_date'', JStr ''t0''),
        (''downloads'',
         JObj [(''windows-x64'',
                JObj [(''url'', JStr ''u1''), (''size'', JInt 10), (''sha256'', JStr ''h1''),
                      (''signed'', JBool True)])])]"
      "[(''windows-x64'',
         JObj [(''url'', JStr ''u1''), (''size'', JInt 10), (''sha256'', JStr ''h1''),
               (''signed'', JBool True)])]"]
  by (simp add: demo_world_def prior_manifest_def download_info_def demo_environ_def
      metadata_key_def sublist_code
      demo_now_def utc_stamp_def isoformat_def zdec_def dec.simps digit_def)

text \<open>
  C3 fails on the code: with both uploads done, a manifest that is the empty JSON object
  makes \<open>metadata["downloads"]\<close> raise \<open>KeyError\<close> between the two guarded blocks of
  \<open>update_metadata_json\<close>; the exception reaches the handler of \<open>upload_to_r2\<close>, which
  returns \<open>False\<close>, and the process ends with status 1.
\<close>

theorem manifest_shape_failure_is_fatal:
  "fst (main (demo_world (Loaded empty_manifest)) demo_args) = 1 \<and>
   calls (snd (main (demo_world (Loaded empty_manifest)) demo_args)) =
     [Construct, Upload ''releases/v1.1.0/macos-arm64/Ami-1.1.0-macos-arm64.dmg'',
      Upload ''releases/latest/macos-arm64/Ami-latest-macos-arm64.dmg'',
      Get ''metadata/latest.json''] \<and>
   update_metadata_json (demo_world (Loaded empty_manifest)) 1 ''ami'' ''1.1.0'' ''macos-arm64''
      ''releases/latest/macos-arm64/Ami-latest-macos-arm64.dmg'' 0 fh False True =
     (Inl (KeyError ''downloads''), [GetObject ''ami'' ''metadata/latest.json''])"
proof -
  let ?w = "demo_world (Loaded empty_manifest)"
  let ?r = "upload_to_r2 ?w demo_file ''1.1.0'' ''macos'' ''arm64'' False True None"
  have u: "\<not> usable (get_object_result ?w)"
    by (simp add: usable_def demo_world_def empty_manifest_def)
  have ok: "upload_file_ok ?w k" for k
    by (simp add: demo_world_def)
  have "fst ?r \<noteq> Inr True"
    using u by (simp add: fst_upload_to_r2 Let_def)
  moreover obtain b where "fst ?r = Inr b"
    using upload_to_r2_reached_returns [OF demo_reaches] by blast
  ultimately have f: "fst ?r = Inr False"
    by simp
  have c: "calls (snd ?r) =
     [Construct, Upload ''releases/v1.1.0/macos-arm64/Ami-1.1.0-macos-arm64.dmg'',
      Upload ''releases/latest/macos-arm64/Ami-latest-macos-arm64.dmg'',
      Get ''metadata/latest.json'']"
    using u demo_reaches [of "Loaded empty_manifest"] ok
    by (simp add: calls_upload_to_r2 Let_def versioned_key_def latest_key_def latest_filename_def
        platform_arch_of_def metadata_key_def demo_file_def path_name_def path_parts_def
        path_suffix_def name_suffix_def)
  have m: "main ?w demo_args = (1, snd ?r)"
    using f by (cases ?r) (simp add: main_def demo_args_def platform_choices_def arch_choices_def)
  have "update_metadata_json ?w 1 ''ami'' ''1.1.0'' ''macos-arm64''
      ''releases/latest/macos-arm64/Ami-latest-macos-arm64.dmg'' 0 fh False True =
     (Inl (KeyError ''downloads''), [GetObject ''ami'' ''metadata/latest.json''])"
    by (simp add: update_metadata_json_def load_metadata_def merge_metadata_def
        demo_world_def empty_manifest_def metadata_key_def)
  with m c show ?thesis by simp
qed

lemma handled_manifest_failures_nonfatal:
  assumes "arg_platform a \<in> set platform_choices" and "arg_arch a \<in> set arch_choices"
    and "reaches_upload w (arg_file a)"
    and "upload_file_ok w (versioned_key (arg_version a)
           (platform_arch_of (arg_platform a) (arg_arch a)) (path_name (arg_file a)))"
    and "upload_file_ok w (latest_key (platform_arch_of (arg_platform a) (arg_arch a))
           (latest_filename (platform_arch_of (arg_platform a) (arg_arch a))
              (path_suffix (arg_file a))))"
    and "usable (get_object_result w)"
  shows "fst (main w a) = 0"
proof -
  have "fst (upload_to_r2 w (arg_file a) (arg_version a) (arg_platform a) (arg_arch a)
          (arg_signed a) (arg_notarized a) (arg_commit_sha a)) = Inr True"
    using assms(3-6) by (simp add: fst_upload_to_r2 Let_def)
  with assms(1,2) show ?thesis
    by (cases "upload_to_r2 w (arg_file a) (arg_version a) (arg_platform a) (arg_arch a)
          (arg_signed a) (arg_notarized a) (arg_commit_sha a)") (simp add: main_def)
qed

subsection \<open>Validation and the order of the calls\<close>

lemma main_calls:
  "calls (snd (main w a)) =
     (if arg_platform a \<in> set platform_choices \<and> arg_arch a \<in> set arch_choices
      then calls (snd (upload_to_r2 w (arg_file a) (arg_version a) (arg_platform a) (arg_arch a)
                (arg_signed a) (arg_notarized a) (arg_commit_sha a)))
      else [])"
  by (simp add: main_def calls_append split: prod.splits sum.splits)

lemma main_exit:
  "fst (main w a) = 0 \<longleftrightarrow>
     arg_platform a \<in> set platform_choices \<and> arg_arch a \<in> set arch_choices \<and>
     fst (upload_to_r2 w (arg_file a) (arg_version a) (arg_platform a) (arg_arch a)
                (arg_signed a) (arg_notarized a) (arg_commit_sha a)) = Inr True"
  by (auto simp: main_def split: prod.splits sum.splits)

text \<open>
  C4. When one of the four variables is missing (or empty), or the path does not exist,
  the program prints its error, makes no call to the storage library, not even the
  construction of the client, and ends with status 1.
\<close>

theorem validation_failure_no_calls:
  assumes "arg_platform a \<in> set platform_choices" and "arg_arch a \<in> set arch_choices"
    and "\<not> truthy (environ w ''R2_ACCESS_KEY_ID'') \<or> \<not> truthy (environ w ''R2_SECRET_ACCESS_KEY'') \<or>
         \<not> truthy (environ w ''R2_ENDPOINT'') \<or> \<not> truthy (environ w ''R2_BUCKET'') \<or>
         files w (arg_file a) = None"
  shows "fst (main w a) = 1 \<and> calls (snd (main w a)) = [] \<and>
         snd (main w a) =
           (if truthy (environ w ''R2_ACCESS_KEY_ID'') \<and> truthy (environ w ''R2_SECRET_ACCESS_KEY'') \<and>
               truthy (environ w ''R2_ENDPOINT'') \<and> truthy (environ w ''R2_BUCKET'')
            then [Print (FileNotFound (arg_file a))]
            else [Print MissingCredentials, Print RequiredVariables])"
proof -
  have "\<not> list_all truthy [environ w ''R2_ACCESS_KEY_ID'', environ w ''R2_SECRET_ACCESS_KEY'',
                      environ w ''R2_ENDPOINT'', environ w ''R2_BUCKET''] \<or>
        files w (arg_file a) = None"
    using assms(3) by auto
  from upload_to_r2_validation [OF this] assms(1,2) show ?thesis
    by (simp add: main_def)
qed

theorem validation_failure_no_calls_witness:
  "main ((demo_world NoSuchKey)\<lparr>environ := demo_environ(''R2_BUCKET'' := None)\<rparr>) demo_args =
     (1, [Print MissingCredentials, Print RequiredVariables]) \<and>
   main ((demo_world NoSuchKey)\<lparr>files := Map.empty\<rparr>) demo_args =
     (1, [Print (FileNotFound ''dist/Ami-1.1.0-macos-arm64.dmg'')])"
  using validation_failure_no_calls
      [of demo_args "(demo_world NoSuchKey)\<lparr>environ := demo_environ(''R2_BUCKET'' := None)\<rparr>"]
    validation_failure_no_calls [of demo_args "(demo_world NoSuchKey)\<lparr>files := Map.empty\<rparr>"]
  by (simp add: demo_args_def demo_world_def demo_environ_def demo_file_def
      platform_choices_def arch_choices_def prod_eq_iff)

text \<open>
  C5. The calls of a run are an initial part of: construct the client, upload to the
  versioned key, upload to the latest key, get the manifest, put the manifest. The
  manifest is read or written only when both uploads have returned; when one of them
  fails, the manifest is neither read nor written and the exit status is not 0.
\<close>

theorem manifest_after_uploads:
  "let pa = platform_arch_of (arg_platform a) (arg_arch a);
       vk = versioned_key (arg_version a) pa (path_name (arg_file a));
       lk = latest_key pa (latest_filename pa (path_suffix (arg_file a)));
       cs = calls (snd (main w a))
   in prefix cs [Construct, Upload vk, Upload lk, Get metadata_key, Put metadata_key] \<and>
      (Get metadata_key \<in> set cs \<or> Put metadata_key \<in> set cs
         \<longrightarrow> upload_file_ok w vk \<and> upload_file_ok w lk \<and>
             take 4 cs = [Construct, Upload vk, Upload lk, Get metadata_key]) \<and>
      (\<not> upload_file_ok w vk \<or> \<not> upload_file_ok w lk
         \<longrightarrow> Get metadata_key \<notin> set cs \<and> Put metadata_key \<notin> set cs \<and> fst (main w a) \<noteq> 0)"
proof -
  have "Get metadata_key \<noteq> Upload k" "Put metadata_key \<noteq> Upload k" for k
    by simp_all
  then show ?thesis
    by (auto simp: main_calls main_exit calls_upload_to_r2 fst_upload_to_r2 Let_def)
qed

theorem manifest_after_uploads_witness:
  "calls (snd (main ((demo_world NoSuchKey)\<lparr>upload_file_ok := (\<lambda>k. k = ''releases/v1.1.0/macos-arm64/Ami-1.1.0-macos-arm64.dmg'')\<rparr>) demo_args)) =
     [Construct, Upload ''releases/v1.1.0/macos-arm64/Ami-1.1.0-macos-arm64.dmg'',
      Upload ''releases/latest/macos-arm64/Ami-latest-macos-arm64.dmg''] \<and>
   fst (main ((demo_world NoSuchKey)\<lparr>upload_file_ok := (\<lambda>k. k = ''releases/v1.1.0/macos-arm64/Ami-1.1.0-macos-arm64.dmg'')\<rparr>) demo_args) \<noteq> 0 \<and>
   calls (snd (main (demo_world NoSuchKey) demo_args)) =
     [Construct, Upload ''releases/v1.1.0/macos-arm64/Ami-1.1.0-macos-arm64.dmg'',
      Upload ''releases/latest/macos-arm64/Ami-latest-macos-arm64.dmg'',
      Get ''metadata/latest.json'', Put ''metadata/latest.json'']"
proof -
  let ?w1 = "(demo_world NoSuchKey)\<lparr>upload_file_ok := (\<lambda>k. k = ''releases/v1.1.0/macos-arm64/Ami-1.1.0-macos-arm64.dmg'')\<rparr>"
  have k: "versioned_key (arg_version demo_args)
             (platform_arch_of (arg_platform demo_args) (arg_arch demo_args))
             (path_name (arg_file demo_args)) =
           ''releases/v1.1.0/macos-arm64/Ami-1.1.0-macos-arm64.dmg''"
    "latest_key (platform_arch_of (arg_platform demo_args) (arg_arch demo_args))
       (latest_filename (platform_arch_of (arg_platform demo_args) (arg_arch demo_args))
          (path_suffix (arg_file demo_args))) =
     ''releases/latest/macos-arm64/Ami-latest-macos-arm64.dmg''"
    by (simp_all add: demo_args_def demo_file_def versioned_key_def latest_key_def
        latest_filename_def platform_arch_of_def path_name_def path_parts_def path_suffix_def
        name_suffix_def)
  have r: "reaches_upload ?w1 (arg_file demo_args)"
    "reaches_upload (demo_world NoSuchKey) (arg_file demo_args)"
    by (simp_all add: reaches_upload_def demo_world_def demo_environ_def demo_args_def)
  have c: "arg_platform demo_args \<in> set platform_choices" "arg_arch demo_args \<in> set arch_choices"
    by (simp_all add: demo_args_def platform_choices_def arch_choices_def)
  have c1: "calls (snd (main ?w1 demo_args)) =
     [Construct, Upload ''releases/v1.1.0/macos-arm64/Ami-1.1.0-macos-arm64.dmg'',
      Upload ''releases/latest/macos-arm64/Ami-latest-macos-arm64.dmg'']"
    using r c by (simp add: main_calls calls_upload_to_r2 k Let_def demo_world_def)
  have c2: "calls (snd (main (demo_world NoSuchKey) demo_args)) =
     [Construct, Upload ''releases/v1.1.0/macos-arm64/Ami-1.1.0-macos-arm64.dmg'',
      Upload ''releases/latest/macos-arm64/Ami-latest-macos-arm64.dmg'',
      Get ''metadata/latest.json'', Put ''metadata/latest.json'']"
    using r c
    by (simp add: main_calls calls_upload_to_r2 k Let_def demo_world_def usable_def metadata_key_def)
  from manifest_after_uploads [of demo_args ?w1] c1 c2 show ?thesis
    by (simp add: k Let_def demo_world_def)
qed

subsection \<open>Keys, hash and timestamp\<close>

lemma digit_mod: "digit (n mod 10) = digit n"
  by (simp add: digit_def)

lemma digit_0: "digit 0 = CHR ''0''"
  by (simp add: digit_def)

lemma div10:
  "n div 10 div 10 = n div 100" "n div 10 div 100 = n div 1000"
  "n div 10 div 1000 = n div 10000" "n div 10 div 10000 = n div 100000" for n :: nat
  by (simp_all add: div_mult2_eq [symmetric])

lemma replicate_small:
  "replicate 2 c = [c, c]" "replicate 3 c = [c, c, c]" "replicate 4 c = [c, c, c, c]"
  "replicate 5 c = [c, c, c, c, c]"
  by (simp_all add: eval_nat_numeral)

lemma dec1: "n < 10 \<Longrightarrow> dec n = [digit n]"
  by (simp add: dec.simps [of n])

lemma dec2: "10 \<le> n \<Longrightarrow> n < 100 \<Longrightarrow> dec n = [digit (n div 10), digit n]"
  by (simp add: dec.simps [of n] dec1 digit_mod)

lemma dec3: "100 \<le> n \<Longrightarrow> n < 1000 \<Longrightarrow> dec n = [digit (n div 100), digit (n div 10), digit n]"
  by (simp add: dec.simps [of n] dec2 digit_mod div10)

lemma dec4:
  "1000 \<le> n \<Longrightarrow> n < 10000 \<Longrightarrow>
   dec n = [digit (n div 1000), digit (n div 100), digit (n div 10), digit n]"
  by (simp add: dec.simps [of n] dec3 digit_mod div10)

lemma dec5:
  "10000 \<le> n \<Longrightarrow> n < 100000 \<Longrightarrow>
   dec n = [digit (n div 10000), digit (n div 1000), digit (n div 100), digit (n div 10), digit n]"
  by (simp add: dec.simps [of n] dec4 digit_mod div10)

lemma dec6:
  "100000 \<le> n \<Longrightarrow> n < 1000000 \<Longrightarrow>
   dec n = [digit (n div 100000), digit (n div 10000), digit (n div 1000), digit (n div 100),
            digit (n div 10), digit n]"
  by (simp add: dec.simps [of n] dec5 digit_mod div10)

lemma zdec2: "n < 100 \<Longrightarrow> zdec 2 n = digits2 n"
  by (cases "n < 10") (simp_all add: zdec_def digits2_def dec1 dec2 digit_def)

lemma zdec4: "n < 10000 \<Longrightarrow> zdec 4 n = digits4 n"
proof -
  assume "n < 10000"
  then consider "n < 10" | "10 \<le> n" "n < 100" | "100 \<le> n" "n < 1000" | "1000 \<le> n" "n < 10000"
    by linarith
  then show ?thesis
    by cases (simp_all add: zdec_def digits4_def dec1 dec2 dec3 dec4 digit_def replicate_small)
qed

lemma zdec6: "n < 1000000 \<Longrightarrow> zdec 6 n = digits6 n"
proof -
  assume "n < 1000000"
  then consider "n < 10" | "10 \<le> n" "n < 100" | "100 \<le> n" "n < 1000" | "1000 \<le> n" "n < 10000"
    | "10000 \<le> n" "n < 100000" | "100000 \<le> n" "n < 1000000"
    by linarith
  then show ?thesis
    by cases (simp_all add: zdec_def digits6_def dec1 dec2 dec3 dec4 dec5 dec6 digit_def replicate_small)
qed

lemma utc_stamp_valid:
  assumes "valid_datetime dt"
  shows "utc_stamp dt =
     digits4 (year dt) @ ''-'' @ digits2 (month dt) @ ''-'' @ digits2 (day dt) @ ''T'' @
     digits2 (hour dt) @ '':'' @ digits2 (minute dt) @ '':'' @ digits2 (second dt) @
     (if microsecond dt = 0 then [] else ''.'' @ digits6 (microsecond dt)) @ ''Z''"
  using assms
  by (simp add: utc_stamp_def isoformat_def valid_datetime_def zdec2 zdec4 zdec6)

lemma build_dates_append: "build_dates (xs @ ys) = build_dates xs @ build_dates ys"
  by (induction xs rule: build_dates.induct) simp_all

lemma upload_keys_append: "upload_keys (xs @ ys) = upload_keys xs @ upload_keys ys"
  by (induction xs rule: upload_keys.induct) simp_all

lemma build_dates_update: "build_dates (snd (update_metadata_json w clk bucket version pa lk sz fh sg nt)) = []"
  by (simp add: update_metadata_json_def load_metadata_def build_dates_append
      split: fetched.splits sum.splits prod.splits)

lemma upload_keys_update: "upload_keys (snd (update_metadata_json w clk bucket version pa lk sz fh sg nt)) = []"
  by (simp add: update_metadata_json_def load_metadata_def upload_keys_append
      split: fetched.splits sum.splits prod.splits)

lemma build_date_of_metadata:
  "map_of (object_metadata version platform arch stamp fh sg nt commit) ''build-date'' = Some stamp"
  by (simp add: object_metadata_def)

lemma build_dates_try_upload:
  "build_dates (snd (try_upload w fn ep bucket version pa sz fh sg nt ct md vk lk)) =
     (if upload_file_ok w vk then [map_of md ''build-date'', map_of md ''build-date'']
      else [map_of md ''build-date''])"
  using build_dates_update [of w 1 bucket version pa lk sz fh sg nt]
  by (cases "update_metadata_json w 1 bucket version pa lk sz fh sg nt";
      cases "fst (update_metadata_json w 1 bucket version pa lk sz fh sg nt)")
     (simp_all add: try_upload_def Let_def build_dates_append)

lemma upload_keys_try_upload:
  "upload_keys (snd (try_upload w fn ep bucket version pa sz fh sg nt ct md vk lk)) =
     (if upload_file_ok w vk then [vk, lk] else [vk])"
  using upload_keys_update [of w 1 bucket version pa lk sz fh sg nt]
  by (cases "update_metadata_json w 1 bucket version pa lk sz fh sg nt";
      cases "fst (update_metadata_json w 1 bucket version pa lk sz fh sg nt)")
     (simp_all add: try_upload_def Let_def upload_keys_append)

lemma events_not_reached:
  assumes "\<not> reaches_upload w fp"
  shows "build_dates (snd (upload_to_r2 w fp version platform arch sg nt commit)) = [] \<and>
         upload_keys (snd (upload_to_r2 w fp version platform arch sg nt commit)) = []"
proof (cases "list_all truthy [environ w ''R2_ACCESS_KEY_ID'', environ w ''R2_SECRET_ACCESS_KEY'',
                      environ w ''R2_ENDPOINT'', environ w ''R2_BUCKET'']")
  case False
  then show ?thesis by (simp add: upload_to_r2_def)
next
  case True
  show ?thesis
  proof (cases "files w fp")
    case None
    with True show ?thesis by (simp add: upload_to_r2_def)
  next
    case (Some entry)
    show ?thesis
    proof (cases entry)
      case (Regular bs)
      with Some True assms have "\<not> client_ok w" by (simp add: reaches_upload_def)
      with Some Regular True show ?thesis
        by (simp add: upload_to_r2_def calculate_sha256_regular Let_def)
    next
      case (Unreadable n)
      with Some True show ?thesis
        by (simp add: upload_to_r2_def calculate_sha256_def)
    qed
  qed
qed

lemma events_reached:
  assumes "reaches_upload w fp"
  shows "build_dates (snd (upload_to_r2 w fp version platform arch sg nt commit)) =
           (if upload_file_ok w (versioned_key version (platform_arch_of platform arch) (path_name fp))
            then [Some (utc_stamp (utcnow w 0)), Some (utc_stamp (utcnow w 0))]
            else [Some (utc_stamp (utcnow w 0))]) \<and>
         upload_keys (snd (upload_to_r2 w fp version platform arch sg nt commit)) =
           (let pa = platform_arch_of platform arch;
                vk = versioned_key version pa (path_name fp);
                lk = latest_key pa (latest_filename pa (path_suffix fp))
            in if upload_file_ok w vk then [vk, lk] else [vk])"
proof -
  from assms obtain bs where bs: "files w fp = Some (Regular bs)"
    by (auto simp: reaches_upload_def split: option.splits fs_entry.splits)
  let ?pa = "platform_arch_of platform arch"
  let ?t = "try_upload w (path_str fp) (fstr (environ w ''R2_ENDPOINT''))
                (fstr (environ w ''R2_BUCKET'')) version ?pa (length bs) (sha256_whole bs) sg nt
                (get_content_type (path_name fp))
                (object_metadata version platform arch (utc_stamp (utcnow w 0))
                   (sha256_whole bs) sg nt commit)
                (versioned_key version ?pa (path_name fp))
                (latest_key ?pa (latest_filename ?pa (path_suffix fp)))"
  obtain r evs where t: "?t = (r, evs)" by (cases ?t)
  have "build_dates (snd (upload_to_r2 w fp version platform arch sg nt commit)) =
          build_dates (snd ?t)"
       "upload_keys (snd (upload_to_r2 w fp version platform arch sg nt commit)) =
          upload_keys (snd ?t)"
    by (cases r; simp add: upload_to_r2_reached [OF assms bs] Let_def t build_dates_append
        upload_keys_append)+
  then show ?thesis
    by (simp add: build_dates_try_upload upload_keys_try_upload build_date_of_metadata Let_def)
qed

lemma main_build_dates:
  "build_dates (snd (main w a)) =
     (if arg_platform a \<in> set platform_choices \<and> arg_arch a \<in> set arch_choices
      then build_dates (snd (upload_to_r2 w (arg_file a) (arg_version a) (arg_platform a)
                (arg_arch a) (arg_signed a) (arg_notarized a) (arg_commit_sha a)))
      else [])"
  by (simp add: main_def build_dates_append split: prod.splits sum.splits)

text \<open>
  C6. The two keys are \<open>releases/v{version}/{platform}-{arch}/{name}\<close> and
  \<open>releases/latest/{platform}-{arch}/Ami-latest-{platform}-{arch}{suffix}\<close>, with the
  name and the suffix of the path as \<open>pathlib\<close> gives them. In every environment,
  whatever the clock, the flags and the commit, a run uploads to these keys and to no
  other.
\<close>

theorem object_keys:
  "let vk = ''releases/v'' @ version @ ''/'' @ platform @ ''-'' @ arch @ ''/'' @ path_name fp;
       lk = ''releases/latest/'' @ platform @ ''-'' @ arch @ ''/'' @
            ''Ami-latest-'' @ platform @ ''-'' @ arch @ path_suffix fp
   in versioned_key version (platform_arch_of platform arch) (path_name fp) = vk \<and>
      latest_key (platform_arch_of platform arch)
        (latest_filename (platform_arch_of platform arch) (path_suffix fp)) = lk \<and>
      upload_keys (snd (upload_to_r2 w fp version platform arch sg nt commit)) =
        (if \<not> reaches_upload w fp then []
         else if upload_file_ok w vk then [vk, lk] else [vk])"
proof (cases "reaches_upload w fp")
  case True
  from events_reached [OF this, of version platform arch sg nt commit] True show ?thesis
    by (simp add: Let_def versioned_key_def latest_key_def latest_filename_def platform_arch_of_def)
next
  case False
  from events_not_reached [OF this, of version platform arch sg nt commit] False show ?thesis
    by (simp add: Let_def versioned_key_def latest_key_def latest_filename_def platform_arch_of_def)
qed

theorem object_keys_witness:
  "upload_keys (snd (upload_to_r2 (demo_world NoSuchKey) ''dist/Ami-1.1.0-macos-arm64.dmg''
      ''1.1.0'' ''macos'' ''arm64'' False True None)) =
     [''releases/v1.1.0/macos-arm64/Ami-1.1.0-macos-arm64.dmg'',
      ''releases/latest/macos-arm64/Ami-latest-macos-arm64.dmg'']"
  using object_keys [of "''1.1.0''" "''macos''" "''arm64''" "''dist/Ami-1.1.0-macos-arm64.dmg''"
      "demo_world NoSuchKey" False True None]
    demo_reaches [of NoSuchKey]
  by (simp add: Let_def demo_file_def path_name_def path_parts_def path_suffix_def
      name_suffix_def demo_world_def)

text \<open>
  C7. \<open>calculate_sha256\<close> returns the hexadecimal SHA-256 of all the bytes of the file:
  feeding the hash object the blocks of 4096 bytes that the loop reads, or any other
  cut of the bytes into chunks, gives the digest of the whole sequence hashed at once.
  The result is a function of the bytes; a path that cannot be opened raises.
\<close>

theorem chunked_hash_is_sha256:
  "calculate_sha256 fs p =
     (case fs p of Some (Regular bs) \<Rightarrow> Inr (sha256_whole bs) | _ \<Rightarrow> Inl OSError) \<and>
   sha256_hexdigest (read_blocks sha256_new bs) = sha256_whole bs \<and>
   sha256_hexdigest (fold (\<lambda>c s. sha256_update s c) chunks sha256_new) =
     sha256_whole (concat chunks)"
  using holds_hexdigest [OF holds_read_blocks [OF holds_new, of bs]]
    holds_hexdigest [OF holds_fold [OF holds_new, of chunks]]
  by (simp add: calculate_sha256_whole)

text \<open>
  C9, as stated, fails: \<open>isoformat\<close> prints the microseconds whenever they are not zero.
  At a clock reading with 123456 microseconds both uploads carry a build date with a
  fraction of a second.
\<close>

theorem build_date_counterexample:
  "build_dates (snd (main (demo_world NoSuchKey) demo_args)) =
     [Some ''2024-01-15T10:30:45.123456Z'', Some ''2024-01-15T10:30:45.123456Z'']"
proof -
  have "reaches_upload (demo_world NoSuchKey) (arg_file demo_args)"
    using demo_reaches by (simp add: demo_args_def)
  from events_reached [OF this] show ?thesis
    by (simp add: main_build_dates demo_args_def platform_choices_def arch_choices_def
        demo_world_def demo_now_def utc_stamp_def isoformat_def zdec_def dec.simps digit_def)
qed

text \<open>
  C9, amended. The build date attached to every uploaded object is the first clock
  reading of the run as \<open>YYYY-MM-DDTHH:MM:SS\<close> followed by \<open>Z\<close> when the microsecond
  field of the reading is zero, and as \<open>YYYY-MM-DDTHH:MM:SS.ffffff\<close> followed by \<open>Z\<close>
  otherwise.
\<close>

theorem build_date_format:
  assumes "valid_datetime (utcnow w 0)"
  shows
    "let now = utcnow w 0;
         stamp = digits4 (year now) @ ''-'' @ digits2 (month now) @ ''-'' @ digits2 (day now) @
                 ''T'' @ digits2 (hour now) @ '':'' @ digits2 (minute now) @ '':'' @
                 digits2 (second now) @
                 (if microsecond now = 0 then [] else ''.'' @ digits6 (microsecond now)) @ ''Z''
     in build_dates (snd (upload_to_r2 w fp version platform arch sg nt commit)) =
          (if \<not> reaches_upload w fp then []
           else if upload_file_ok w
                     (versioned_key version (platform_arch_of platform arch) (path_name fp))
             then [Some stamp, Some stamp]
           else [Some stamp])"
proof (cases "reaches_upload w fp")
  case True
  from events_reached [OF this, of version platform arch sg nt commit] True show ?thesis
    by (simp add: Let_def utc_stamp_valid [OF assms])
next
  case False
  from events_not_reached [OF this, of version platform arch sg nt commit] False show ?thesis
    by (simp add: Let_def)
qed

theorem build_date_format_witness:
  "build_dates (snd (upload_to_r2
      ((demo_world NoSuchKey)\<lparr>utcnow := (\<lambda>i. demo_now\<lparr>microsecond := 0\<rparr>)\<rparr>)
      ''dist/Ami-1.1.0-macos-arm64.dmg'' ''1.1.0'' ''macos'' ''arm64'' False True None)) =
     [Some ''2024-01-15T10:30:45Z'', Some ''2024-01-15T10:30:45Z''] \<and>
   build_dates (snd (upload_to_r2
      ((demo_world NoSuchKey)\<lparr>utcnow := (\<lambda>i. demo_now\<lparr>microsecond := 42\<rparr>)\<rparr>)
      ''dist/Ami-1.1.0-macos-arm64.dmg'' ''1.1.0'' ''macos'' ''arm64'' False True None)) =
     [Some ''2024-01-15T10:30:45.000042Z'', Some ''2024-01-15T10:30:45.000042Z'']"
proof -
  let ?w0 = "(demo_world NoSuchKey)\<lparr>utcnow := (\<lambda>i. demo_now\<lparr>microsecond := 0\<rparr>)\<rparr>"
  let ?w1 = "(demo_world NoSuchKey)\<lparr>utcnow := (\<lambda>i. demo_now\<lparr>microsecond := 42\<rparr>)\<rparr>"
  have v: "valid_datetime (utcnow ?w0 0)" "valid_datetime (utcnow ?w1 0)"
    by (simp_all add: valid_datetime_def demo_world_def demo_now_def)
  have r: "reaches_upload ?w0 ''dist/Ami-1.1.0-macos-arm64.dmg''"
    "reaches_upload ?w1 ''dist/Ami-1.1.0-macos-arm64.dmg''"
    by (simp_all add: reaches_upload_def demo_world_def demo_environ_def demo_file_def)
  from build_date_format [OF v(1), of "''dist/Ami-1.1.0-macos-arm64.dmg''" "''1.1.0''" "''macos''"
      "''arm64''" False True None]
    build_date_format [OF v(2), of "''dist/Ami-1.1.0-macos-arm64.dmg''" "''1.1.0''" "''macos''"
      "''arm64''" False True None] r
  show ?thesis
    by (simp add: Let_def demo_world_def demo_now_def digits2_def digits4_def digits6_def
        digit_def)
qed

end
